theory Spec2Isabelle
  imports Main "HOL-Library.Word"
begin

unbundle bit_operations_syntax

section \<open>Data model of internal/app/service.go\<close>

type_synonym byte = "8 word"

text \<open>The struct \<^verbatim>\<open>FileMetadata\<close>: five string fields.\<close>

record FileMetadata =
  ID :: string
  Hash :: string
  Extension :: string
  CreatedAt :: string
  UpdatedAt :: string

text \<open>The struct \<^verbatim>\<open>FileResponse\<close>. Every place that builds one passes a non-nil
  metadata pointer, so the field holds the record itself.\<close>

record FileResponse =
  Metadata :: FileMetadata
  PresignedURL :: string

text \<open>What a handler leaves on the \<^verbatim>\<open>http.ResponseWriter\<close>: a status with a body,
  or nothing at all when the handler panics (net/http recovers the panic of a handler
  goroutine and drops the connection without writing a status line).\<close>

datatype Body = Text string | Json FileResponse | NoBody

datatype Response = Response nat Body | Panic

fun status :: "Response \<Rightarrow> nat option" where
  "status (Response code b) = Some code"
| "status Panic = None"

text \<open>\<^verbatim>\<open>http.Error(w, msg, code)\<close> writes the status and the message followed by a newline.\<close>

definition httpError :: "string \<Rightarrow> nat \<Rightarrow> Response" where
  "httpError msg code = Response code (Text (msg @ [CHR 0x0A]))"

text \<open>The value of \<^verbatim>\<open>sha256.Sum256\<close> is a \<^verbatim>\<open>[32]byte\<close>: a 256-bit digest, whose
  slice \<^verbatim>\<open>hash[:]\<close> is its 32 bytes, most significant first.\<close>

type_synonym digest = "256 word"

definition digestBytes :: "digest \<Rightarrow> byte list" where
  "digestBytes d = map (\<lambda>i. ucast (drop_bit (8 * (31 - i)) d)) [0..<32]"

text \<open>The library functions the service calls and that are fixed for the life of the
  process: the SHA-256 digest and net/http's content sniffer. They are parameters of the
  model.\<close>

record Lib =
  Sum256 :: "byte list \<Rightarrow> digest"
  DetectContentType :: "byte list \<Rightarrow> string"

text \<open>What the outside world decides during one request: the error (if any) each SDK or
  I/O call returns, the URL the SDK signs for a key, the 16 bytes \<^verbatim>\<open>uuid.New()\<close>
  draws and the RFC 3339 text of \<^verbatim>\<open>time.Now()\<close>. Each handler makes each kind of
  call at most once, so one outcome per kind describes a request.\<close>

record Env =
  readErr :: "string option"
  copyErr :: "string option"
  queryErr :: "string option"
  getItemErr :: "string option"
  putItemErr :: "string option"
  deleteItemErr :: "string option"
  putObjectErr :: "string option"
  deleteObjectErr :: "string option"
  presignErr :: "string option"
  presignURL :: "string \<Rightarrow> string"
  newUUID :: "128 word"
  now :: string

text \<open>The calls a handler issues, in order. \<open>Presign\<close> is the signing of a GET URL by the
  SDK; it reads and writes nothing in the bucket.\<close>

datatype Call =
    GetItem string
  | Query string
  | PutItem FileMetadata
  | DeleteItem string
  | PutObject string "byte list"
  | DeleteObject string
  | Presign string

text \<open>The two stores behind the service (the S3 bucket, keyed by object key, and the
  DynamoDB table, whose primary key is the attribute \<^verbatim>\<open>ID\<close>), and the log of calls
  issued so far.\<close>

record World =
  bucket :: "string \<rightharpoonup> byte list"
  table :: "FileMetadata list"
  calls :: "Call list"

text \<open>A multipart file: its bytes and the read position.\<close>

record File =
  content :: "byte list"
  offset :: nat

section \<open>The stores, as the SDK calls see them\<close>

text \<open>A call that returns an error leaves the store as it was; a call that succeeds has
  the effect its name says. Every call issued is logged, failed or not.\<close>

definition logCall :: "Call \<Rightarrow> World \<Rightarrow> World" where
  "logCall c w = w\<lparr>calls := calls w @ [c]\<rparr>"

fun putItem :: "FileMetadata \<Rightarrow> FileMetadata list \<Rightarrow> FileMetadata list" where
  "putItem m [] = [m]"
| "putItem m (x # xs) = (if ID x = ID m then m # xs else x # putItem m xs)"

definition getItem :: "FileMetadata list \<Rightarrow> string \<Rightarrow> FileMetadata option" where
  "getItem t i = find (\<lambda>m. ID m = i) t"

definition deleteItem :: "string \<Rightarrow> FileMetadata list \<Rightarrow> FileMetadata list" where
  "deleteItem i t = filter (\<lambda>m. ID m \<noteq> i) t"

definition dbGetItem :: "Env \<Rightarrow> World \<Rightarrow> string \<Rightarrow> (string + FileMetadata option) \<times> World" where
  "dbGetItem e w i =
     (case getItemErr e of
        Some err \<Rightarrow> (Inl err, logCall (GetItem i) w)
      | None \<Rightarrow> (Inr (getItem (table w) i), logCall (GetItem i) w))"

text \<open>The query on the index \<^verbatim>\<open>HashIndex\<close> with \<^verbatim>\<open>Limit: 1\<close>: at most one item
  whose \<^verbatim>\<open>Hash\<close> equals the given one.\<close>

definition dbQuery :: "Env \<Rightarrow> World \<Rightarrow> string \<Rightarrow> (string + FileMetadata list) \<times> World" where
  "dbQuery e w h =
     (case queryErr e of
        Some err \<Rightarrow> (Inl err, logCall (Query h) w)
      | None \<Rightarrow> (Inr (take 1 (filter (\<lambda>m. Hash m = h) (table w))), logCall (Query h) w))"

definition dbPutItem :: "Env \<Rightarrow> World \<Rightarrow> FileMetadata \<Rightarrow> string option \<times> World" where
  "dbPutItem e w m =
     (case putItemErr e of
        Some err \<Rightarrow> (Some err, logCall (PutItem m) w)
      | None \<Rightarrow> (None, logCall (PutItem m) (w\<lparr>table := putItem m (table w)\<rparr>)))"

definition dbDeleteItem :: "Env \<Rightarrow> World \<Rightarrow> string \<Rightarrow> string option \<times> World" where
  "dbDeleteItem e w i =
     (case deleteItemErr e of
        Some err \<Rightarrow> (Some err, logCall (DeleteItem i) w)
      | None \<Rightarrow> (None, logCall (DeleteItem i) (w\<lparr>table := deleteItem i (table w)\<rparr>)))"

definition s3PutObject :: "Env \<Rightarrow> World \<Rightarrow> string \<Rightarrow> byte list \<Rightarrow> string option \<times> World" where
  "s3PutObject e w k body =
     (case putObjectErr e of
        Some err \<Rightarrow> (Some err, logCall (PutObject k body) w)
      | None \<Rightarrow> (None, logCall (PutObject k body) (w\<lparr>bucket := (bucket w)(k \<mapsto> body)\<rparr>)))"

definition s3DeleteObject :: "Env \<Rightarrow> World \<Rightarrow> string \<Rightarrow> string option \<times> World" where
  "s3DeleteObject e w k =
     (case deleteObjectErr e of
        Some err \<Rightarrow> (Some err, logCall (DeleteObject k) w)
      | None \<Rightarrow> (None, logCall (DeleteObject k) (w\<lparr>bucket := (bucket w)(k := None)\<rparr>)))"

definition s3Presign :: "Env \<Rightarrow> World \<Rightarrow> string \<Rightarrow> (string + string) \<times> World" where
  "s3Presign e w k =
     (case presignErr e of
        Some err \<Rightarrow> (Inl err, logCall (Presign k) w)
      | None \<Rightarrow> (Inr (presignURL e k), logCall (Presign k) w))"

section \<open>Reading the uploaded file\<close>

text \<open>\<^verbatim>\<open>file.Read(buffer)\<close> on a multipart file: an I/O error, or \<^verbatim>\<open>io.EOF\<close> when
  nothing is left, or the next bytes, at most as many as the buffer holds, written over
  the front of the buffer. The result is the error or the count, the buffer and the file.\<close>

definition fileRead :: "Env \<Rightarrow> File \<Rightarrow> byte list \<Rightarrow> (string + nat) \<times> byte list \<times> File" where
  "fileRead e f buffer =
     (case readErr e of
        Some err \<Rightarrow> (Inl err, buffer, f)
      | None \<Rightarrow>
          if length (content f) \<le> offset f then (Inl ''EOF'', buffer, f)
          else
            (let bs = take (length buffer) (drop (offset f) (content f))
             in (Inr (length bs), bs @ drop (length bs) buffer,
                 f\<lparr>offset := offset f + length bs\<rparr>)))"

definition seekStart :: "File \<Rightarrow> File" where
  "seekStart f = f\<lparr>offset := 0\<rparr>"

definition ioCopy :: "Env \<Rightarrow> File \<Rightarrow> (string + byte list) \<times> File" where
  "ioCopy e f =
     (case copyErr e of
        Some err \<Rightarrow> (Inl err, f)
      | None \<Rightarrow> (Inr (drop (offset f) (content f)), f\<lparr>offset := length (content f)\<rparr>))"

section \<open>The functions of service.go\<close>

text \<open>\<^verbatim>\<open>filepath.Ext\<close>: scan from the end; stop at a path separator; the extension
  starts at the last dot of the last path element.\<close>

fun extLoop :: "string \<Rightarrow> string \<Rightarrow> string" where
  "extLoop [] suffix = []"
| "extLoop (c # front) suffix =
     (if c = CHR ''/'' then []
      else if c = CHR ''.'' then c # suffix
      else extLoop front (c # suffix))"

definition Ext :: "string \<Rightarrow> string" where
  "Ext path = extLoop (rev path) []"

text \<open>\<^verbatim>\<open>validateFile\<close>: the extension test first; then one read into a zeroed buffer
  of 512 bytes, which is sniffed whole.\<close>

definition validateFile :: "Lib \<Rightarrow> Env \<Rightarrow> File \<Rightarrow> string \<Rightarrow> (string + string) \<times> File" where
  "validateFile lib e file fileHeader =
     (let ext = Ext fileHeader in
      if ext \<noteq> ''.jpeg'' \<and> ext \<noteq> ''.jpg'' then (Inl ''only JPEG files are allowed'', file)
      else
        case fileRead e file (replicate 512 0) of
          (Inl err, buffer, file') \<Rightarrow> (Inl (''failed to read file: '' @ err), file')
        | (Inr n, buffer, file') \<Rightarrow>
            if DetectContentType lib buffer \<noteq> ''image/jpeg''
            then (Inl ''file is not a valid JPEG image'', file')
            else (Inr ext, file'))"

text \<open>\<^verbatim>\<open>strings.Replace(url, old, new, 1)\<close>: the first occurrence only.\<close>

fun replaceFirst :: "string \<Rightarrow> string \<Rightarrow> string \<Rightarrow> string" where
  "replaceFirst old new [] = (if old = [] then new else [])"
| "replaceFirst old new (c # cs) =
     (if take (length old) (c # cs) = old then new @ drop (length old) (c # cs)
      else c # replaceFirst old new cs)"

definition replaceLocalstackHostWithLocalhost :: "string \<Rightarrow> string" where
  "replaceLocalstackHostWithLocalhost url =
     replaceFirst ''http://localstack:4566'' ''http://localhost:4566'' url"

definition generatePresignedURL :: "Env \<Rightarrow> World \<Rightarrow> string \<Rightarrow> (string + string) \<times> World" where
  "generatePresignedURL e w objectKey =
     (case s3Presign e w objectKey of
        (Inl err, w') \<Rightarrow> (Inl err, w')
      | (Inr presignedURL, w') \<Rightarrow> (Inr (replaceLocalstackHostWithLocalhost presignedURL), w'))"

definition uploadToS3 :: "Env \<Rightarrow> World \<Rightarrow> string \<Rightarrow> byte list \<Rightarrow> string option \<times> World" where
  "uploadToS3 e w objectKey fileBuffer = s3PutObject e w objectKey fileBuffer"

text \<open>\<^verbatim>\<open>saveMetadataToDB\<close>. Marshalling a struct of five strings cannot fail, so that
  branch has no counterpart.\<close>

definition saveMetadataToDB :: "Env \<Rightarrow> World \<Rightarrow> FileMetadata \<Rightarrow> string option \<times> World" where
  "saveMetadataToDB e w metadata =
     (if ID metadata = [] \<or> Hash metadata = []
      then (Some ''metadata must have non-empty ID and Hash'', w)
      else
        case dbPutItem e w metadata of
          (Some err, w') \<Rightarrow> (Some (''failed to save metadata to DynamoDB: '' @ err), w')
        | (None, w') \<Rightarrow> (None, w'))"

text \<open>\<^verbatim>\<open>retrieveMetadataFromDB\<close> returns a pointer and an error; both are nil when the
  call succeeds and the table has no item under the key. The items of the table are
  \<^verbatim>\<open>FileMetadata\<close> records, so unmarshalling one cannot fail and that error has no
  counterpart here, nor in \<^verbatim>\<open>getFileIDByHash\<close>.\<close>

definition retrieveMetadataFromDB ::
  "Env \<Rightarrow> World \<Rightarrow> string \<Rightarrow> (FileMetadata option \<times> string option) \<times> World" where
  "retrieveMetadataFromDB e w i =
     (case dbGetItem e w i of
        (Inl err, w') \<Rightarrow> ((None, Some err), w')
      | (Inr None, w') \<Rightarrow> ((None, None), w')
      | (Inr (Some metadata), w') \<Rightarrow> ((Some metadata, None), w'))"

text \<open>\<^verbatim>\<open>hex.EncodeToString\<close>: two characters of the table per byte, high nibble first.\<close>

definition hextable :: string where
  "hextable = ''0123456789abcdef''"

fun EncodeToString :: "byte list \<Rightarrow> string" where
  "EncodeToString [] = []"
| "EncodeToString (v # src) =
     hextable ! unat (drop_bit 4 v) # hextable ! unat (v AND 0x0f) # EncodeToString src"

text \<open>\<^verbatim>\<open>uuid.New().String()\<close>: the 16 bytes in hexadecimal, in groups of 4, 2, 2, 2
  and 6 bytes separated by hyphens.\<close>

definition uuidBytes :: "128 word \<Rightarrow> byte list" where
  "uuidBytes u = map (\<lambda>i. ucast (drop_bit (8 * (15 - i)) u)) [0..<16]"

definition uuidString :: "128 word \<Rightarrow> string" where
  "uuidString u =
     EncodeToString (take 4 (uuidBytes u)) @ ''-'' @
     EncodeToString (take 2 (drop 4 (uuidBytes u))) @ ''-'' @
     EncodeToString (take 2 (drop 6 (uuidBytes u))) @ ''-'' @
     EncodeToString (take 2 (drop 8 (uuidBytes u))) @ ''-'' @
     EncodeToString (drop 10 (uuidBytes u))"

definition newID :: "Env \<Rightarrow> string" where
  "newID e = uuidString (newUUID e)"

definition calculateHash :: "Lib \<Rightarrow> byte list \<Rightarrow> string" where
  "calculateHash lib data = EncodeToString (digestBytes (Sum256 lib data))"

definition getFileIDByHash ::
  "Env \<Rightarrow> World \<Rightarrow> string \<Rightarrow> (FileMetadata option \<times> string option) \<times> World" where
  "getFileIDByHash e w hash =
     (if hash = [] then ((None, Some ''hash cannot be empty''), w)
      else
        case dbQuery e w hash of
          (Inl err, w') \<Rightarrow> ((None, Some (''failed to query DynamoDB: '' @ err)), w')
        | (Inr [], w') \<Rightarrow> ((None, None), w')
        | (Inr (metadata # rest), w') \<Rightarrow> ((Some metadata, None), w'))"

text \<open>\<^verbatim>\<open>CreateFile\<close>, from the hash query on. The two branches of
  \<^verbatim>\<open>existingFile != nil\<close> are \<open>createExisting\<close> and \<open>createNew\<close>.\<close>

definition createExisting :: "Env \<Rightarrow> World \<Rightarrow> FileMetadata \<Rightarrow> Response \<times> World" where
  "createExisting e w existingFile =
     (case generatePresignedURL e w (ID existingFile @ Extension existingFile) of
        (Inl err, w') \<Rightarrow> (httpError err 500, w')
      | (Inr presignedURL, w') \<Rightarrow>
          (Response 200 (Json \<lparr>Metadata = existingFile, PresignedURL = presignedURL\<rparr>), w'))"

definition newMetadata :: "Env \<Rightarrow> string \<Rightarrow> string \<Rightarrow> FileMetadata" where
  "newMetadata e hash ext =
     \<lparr>ID = newID e, Hash = hash, Extension = ext, CreatedAt = now e, UpdatedAt = now e\<rparr>"

definition createNew :: "Env \<Rightarrow> World \<Rightarrow> string \<Rightarrow> string \<Rightarrow> byte list \<Rightarrow> Response \<times> World" where
  "createNew e w hash ext fileBuffer =
     (case uploadToS3 e w (newID e @ ext) fileBuffer of
        (Some err, w1) \<Rightarrow> (httpError err 500, w1)
      | (None, w1) \<Rightarrow>
          (case saveMetadataToDB e w1 (newMetadata e hash ext) of
             (Some err, w2) \<Rightarrow> (httpError err 500, w2)
           | (None, w2) \<Rightarrow>
               (case generatePresignedURL e w2 (newID e @ ext) of
                  (Inl err, w3) \<Rightarrow> (httpError err 500, w3)
                | (Inr presignedURL, w3) \<Rightarrow>
                    (Response 201
                       (Json \<lparr>Metadata = newMetadata e hash ext, PresignedURL = presignedURL\<rparr>),
                     w3))))"

definition createHashed :: "Lib \<Rightarrow> Env \<Rightarrow> World \<Rightarrow> string \<Rightarrow> byte list \<Rightarrow> Response \<times> World" where
  "createHashed lib e w ext fileBuffer =
     (case getFileIDByHash e w (calculateHash lib fileBuffer) of
        ((existingFile, err), w') \<Rightarrow>
          (case err of
             Some msg \<Rightarrow> (httpError msg 500, w')
           | None \<Rightarrow>
               (case existingFile of
                  Some found \<Rightarrow> createExisting e w' found
                | None \<Rightarrow> createNew e w' (calculateHash lib fileBuffer) ext fileBuffer)))"

text \<open>The request of \<^verbatim>\<open>CreateFile\<close> is what \<^verbatim>\<open>r.FormFile("file")\<close> yields: an error,
  or the submitted file name with the bytes of the part.\<close>

type_synonym Upload = "string + string \<times> byte list"

definition CreateFile :: "Lib \<Rightarrow> Env \<Rightarrow> World \<Rightarrow> Upload \<Rightarrow> Response \<times> World" where
  "CreateFile lib e w r =
     (case r of
        Inl err \<Rightarrow> (httpError err 400, w)
      | Inr (filename, bytes) \<Rightarrow>
          (case validateFile lib e \<lparr>content = bytes, offset = 0\<rparr> filename of
             (Inl err, file) \<Rightarrow> (httpError err 415, w)
           | (Inr ext, file) \<Rightarrow>
               (case ioCopy e (seekStart file) of
                  (Inl err, file') \<Rightarrow> (httpError err 500, w)
                | (Inr fileBuffer, file') \<Rightarrow> createHashed lib e w ext fileBuffer)))"

definition GetFile :: "Env \<Rightarrow> World \<Rightarrow> string \<Rightarrow> Response \<times> World" where
  "GetFile e w i =
     (case retrieveMetadataFromDB e w i of
        ((metadata, err), w') \<Rightarrow>
          (case err of
             Some msg \<Rightarrow> (httpError msg 404, w')
           | None \<Rightarrow>
               (case metadata of
                  None \<Rightarrow> (httpError ''file not found'' 404, w')
                | Some found \<Rightarrow>
                    (case generatePresignedURL e w' (ID found @ Extension found) of
                       (Inl msg, w'') \<Rightarrow> (httpError msg 500, w'')
                     | (Inr presignedURL, w'') \<Rightarrow>
                         (Response 200
                            (Json \<lparr>Metadata = found, PresignedURL = presignedURL\<rparr>),
                          w'')))))"

text \<open>\<^verbatim>\<open>DeleteFile\<close> tests only the error of the lookup. With a nil error and a nil
  pointer, \<^verbatim>\<open>metadata.ID\<close> dereferences nil and the handler panics.\<close>

definition DeleteFile :: "Env \<Rightarrow> World \<Rightarrow> string \<Rightarrow> Response \<times> World" where
  "DeleteFile e w i =
     (case retrieveMetadataFromDB e w i of
        ((metadata, err), w') \<Rightarrow>
          (case err of
             Some msg \<Rightarrow> (httpError msg 404, w')
           | None \<Rightarrow>
               (case metadata of
                  None \<Rightarrow> (Panic, w')
                | Some found \<Rightarrow>
                    (case s3DeleteObject e w' (ID found @ Extension found) of
                       (Some msg, w1) \<Rightarrow> (httpError msg 500, w1)
                     | (None, w1) \<Rightarrow>
                         (case dbDeleteItem e w1 i of
                            (Some msg, w2) \<Rightarrow> (httpError msg 500, w2)
                          | (None, w2) \<Rightarrow> (Response 204 NoBody, w2))))))"

text \<open>\<^verbatim>\<open>routes\<close>: the three endpoints.\<close>

datatype Request = POST_file Upload | GET_file string | DELETE_file string

fun routes :: "Lib \<Rightarrow> Env \<Rightarrow> World \<Rightarrow> Request \<Rightarrow> Response \<times> World" where
  "routes lib e w (POST_file r) = CreateFile lib e w r"
| "routes lib e w (GET_file i) = GetFile e w i"
| "routes lib e w (DELETE_file i) = DeleteFile e w i"

text \<open>Requests served one after the other, each with its own outcomes of the outside
  world.\<close>

fun serve :: "Lib \<Rightarrow> World \<Rightarrow> (Env \<times> Request) list \<Rightarrow> World" where
  "serve lib w [] = w"
| "serve lib w ((e, r) # rs) = serve lib (snd (routes lib e w r)) rs"

section \<open>Notions the properties are stated with\<close>

text \<open>What \<^verbatim>\<open>validateFile\<close> sniffs for a fresh file of the given bytes: the first 512
  bytes at most, followed by the zeros left in the buffer.\<close>

definition sniffBuffer :: "byte list \<Rightarrow> byte list" where
  "sniffBuffer bytes = take 512 bytes @ replicate (512 - length bytes) 0"

text \<open>A valid JPEG upload: the part is not empty and its sniffed type is
  \<^verbatim>\<open>image/jpeg\<close>.\<close>

definition isJPEG :: "Lib \<Rightarrow> byte list \<Rightarrow> bool" where
  "isJPEG lib bytes = (bytes \<noteq> [] \<and> DetectContentType lib (sniffBuffer bytes) = ''image/jpeg'')"

definition validExt :: "string \<Rightarrow> bool" where
  "validExt filename = (Ext filename = ''.jpg'' \<or> Ext filename = ''.jpeg'')"

text \<open>Both stores and the file behave: no call of the request returns an error.\<close>

definition noFaults :: "Env \<Rightarrow> bool" where
  "noFaults e =
     (readErr e = None \<and> copyErr e = None \<and> queryErr e = None \<and> getItemErr e = None \<and>
      putItemErr e = None \<and> deleteItemErr e = None \<and> putObjectErr e = None \<and>
      deleteObjectErr e = None \<and> presignErr e = None)"

text \<open>The value of a hexadecimal digit, for reading an encoded digest back.\<close>

definition hexValue :: "char \<Rightarrow> nat" where
  "hexValue c =
     (if of_char c < (58 :: nat) then of_char c - 48 else of_char c - 87)"

section \<open>Concrete inputs\<close>

text \<open>A stand-in digest (the sum of the bytes) and the JPEG signature of net/http's
  sniffer, for evaluating the handlers on concrete requests.\<close>

definition exSum256 :: "byte list \<Rightarrow> digest" where
  "exSum256 bs = sum_list (map ucast bs)"

definition exDetect :: "byte list \<Rightarrow> string" where
  "exDetect buf =
     (if take 3 buf = [0xFF, 0xD8, 0xFF] then ''image/jpeg'' else ''application/octet-stream'')"

definition exLib :: Lib where
  "exLib = \<lparr>Sum256 = exSum256, DetectContentType = exDetect\<rparr>"

definition exEnv :: Env where
  "exEnv =
     \<lparr>readErr = None, copyErr = None, queryErr = None, getItemErr = None, putItemErr = None,
      deleteItemErr = None, putObjectErr = None, deleteObjectErr = None, presignErr = None,
      presignURL = (\<lambda>k. ''http://localstack:4566/file-storage-bucket/'' @ k),
      newUUID = 0x17f6c3d2441546eca70c741127b73c20, now = ''2024-11-27T12:25:35Z''\<rparr>"

definition emptyWorld :: World where
  "emptyWorld = \<lparr>bucket = Map.empty, table = [], calls = []\<rparr>"

definition exJpeg :: "byte list" where
  "exJpeg = [0xFF, 0xD8, 0xFF, 0xE0]"

text \<open>Other JPEG bytes, and the environment of a later request that draws another
  identifier.\<close>

definition exJpeg2 :: "byte list" where
  "exJpeg2 = [0xFF, 0xD8, 0xFF, 0xE1]"

definition exEnv2 :: Env where
  "exEnv2 =
     exEnv\<lparr>newUUID := 0xd4d021a1f9d9437c88c4559eb7d69cca, now := ''2024-11-27T12:31:02Z''\<rparr>"

text \<open>A text file, to be submitted under a \<open>.jpg\<close> name.\<close>

definition exText :: "byte list" where
  "exText = [0x68, 0x65, 0x6C, 0x6C, 0x6F]"

definition exHash :: string where
  "exHash = ''00000000000000000000000000000000000000000000000000000000000003b6''"

definition exMeta :: FileMetadata where
  "exMeta =
     \<lparr>ID = ''17f6c3d2-4415-46ec-a70c-741127b73c20'', Hash = exHash, Extension = ''.jpg'',
      CreatedAt = ''2024-11-27T12:25:35Z'', UpdatedAt = ''2024-11-27T12:25:35Z''\<rparr>"

text \<open>The stores after \<open>exJpeg\<close> has been uploaded once as \<open>a.jpg\<close>.\<close>

definition storedWorld :: World where
  "storedWorld = \<lparr>bucket = [''17f6c3d2-4415-46ec-a70c-741127b73c20.jpg'' \<mapsto> exJpeg], table = [exMeta], calls = []\<rparr>"

section \<open>Facts about the stores\<close>

lemmas store_defs = dbGetItem_def dbQuery_def dbPutItem_def dbDeleteItem_def s3PutObject_def
  s3DeleteObject_def s3Presign_def logCall_def

lemma set_putItem: "set (putItem m t) \<subseteq> insert m (set t)"
  by (induction t) auto

lemma getItem_putItem: "getItem (putItem m t) i = (if ID m = i then Some m else getItem t i)"
  by (induction t) (auto simp: getItem_def)

lemma getItem_deleteItem: "getItem (deleteItem j t) i = (if i = j then None else getItem t i)"
  by (induction t) (auto simp: getItem_def deleteItem_def)

lemma set_deleteItem: "set (deleteItem i t) \<subseteq> set t"
  by (auto simp: deleteItem_def)

lemma filter_putItem_new:
  "filter (\<lambda>x. Hash x = Hash m) t = [] \<Longrightarrow> filter (\<lambda>x. Hash x = Hash m) (putItem m t) = [m]"
  by (induction t) (auto split: if_splits)

section \<open>The hexadecimal digest\<close>

lemma hexValue_table: "list_all (\<lambda>n. hexValue (hextable ! n) = n) [0..<16]"
  by code_simp

lemma hexValue_hextable: "n < 16 \<Longrightarrow> hexValue (hextable ! n) = n"
  using hexValue_table by (simp add: list_all_iff)

lemma unat_byte_lt: "unat (v :: byte) < 256"
  using unsigned_less [of v, where 'a = nat] by simp

lemma nibble_hi: "unat (drop_bit 4 (v :: byte)) = unat v div 16"
  by (simp add: drop_bit_eq_div unat_div)

lemma nibble_lo: "unat ((v :: byte) AND 0x0f) = unat v mod 16"
proof -
  have "(v AND 0x0f) = take_bit 4 v"
    by (simp add: take_bit_eq_mask mask_eq_exp_minus_1)
  then show ?thesis by (simp add: take_bit_eq_mod unat_mod)
qed

lemma length_EncodeToString: "length (EncodeToString bs) = 2 * length bs"
  by (induction bs) simp_all

lemma length_digestBytes: "length (digestBytes d) = 32"
  by (simp add: digestBytes_def)

lemma hextable_nth_mem: "n < 16 \<Longrightarrow> hextable ! n \<in> set hextable"
  by (rule nth_mem) (simp add: hextable_def)

lemma set_EncodeToString: "set (EncodeToString bs) \<subseteq> set hextable"
proof (induction bs)
  case Nil
  then show ?case by simp
next
  case (Cons v bs)
  have hi: "unat v div 16 < 16" using unat_byte_lt [of v] by simp
  have lo: "unat v mod 16 < 16" by simp
  show ?case
    using Cons hextable_nth_mem [OF hi] hextable_nth_mem [OF lo]
    by (simp add: nibble_hi nibble_lo)
qed

lemma hexValue_EncodeToString:
  "map hexValue (EncodeToString bs) = concat (map (\<lambda>v. [unat v div 16, unat v mod 16]) bs)"
proof (induction bs)
  case Nil
  then show ?case by simp
next
  case (Cons v bs)
  have hi: "unat v div 16 < 16" using unat_byte_lt [of v] by simp
  have lo: "unat v mod 16 < 16" by simp
  show ?case
    using Cons by (simp add: nibble_hi nibble_lo hexValue_hextable [OF hi] hexValue_hextable [OF lo])
qed

lemma length_calculateHash: "length (calculateHash lib bytes) = 64"
  by (simp add: calculateHash_def length_EncodeToString length_digestBytes)

lemma calculateHash_nonempty: "calculateHash lib bytes \<noteq> []"
  using length_calculateHash [of lib bytes] by auto

lemma newID_nonempty: "newID e \<noteq> []"
  by (simp add: newID_def uuidString_def)

section \<open>The paths through CreateFile\<close>

lemma validateFile_fresh:
  "validateFile lib e \<lparr>content = bytes, offset = 0\<rparr> name =
     (if \<not> validExt name then (Inl ''only JPEG files are allowed'', \<lparr>content = bytes, offset = 0\<rparr>)
      else case readErr e of
         Some err \<Rightarrow> (Inl (''failed to read file: '' @ err), \<lparr>content = bytes, offset = 0\<rparr>)
       | None \<Rightarrow>
          if bytes = [] then (Inl ''failed to read file: EOF'', \<lparr>content = bytes, offset = 0\<rparr>)
          else if DetectContentType lib (sniffBuffer bytes) \<noteq> ''image/jpeg''
          then (Inl ''file is not a valid JPEG image'', \<lparr>content = bytes, offset = min 512 (length bytes)\<rparr>)
          else (Inr (Ext name), \<lparr>content = bytes, offset = min 512 (length bytes)\<rparr>))"
  by (auto simp add: validateFile_def validExt_def fileRead_def sniffBuffer_def Let_def min_def
      split: option.split)

lemma CreateFile_fresh:
  "CreateFile lib e w (Inr (name, bytes)) =
     (if \<not> validExt name then (httpError ''only JPEG files are allowed'' 415, w)
      else case readErr e of
         Some err \<Rightarrow> (httpError (''failed to read file: '' @ err) 415, w)
       | None \<Rightarrow>
          if bytes = [] then (httpError ''failed to read file: EOF'' 415, w)
          else if DetectContentType lib (sniffBuffer bytes) \<noteq> ''image/jpeg''
          then (httpError ''file is not a valid JPEG image'' 415, w)
          else case copyErr e of
             Some err \<Rightarrow> (httpError err 500, w)
           | None \<Rightarrow> createHashed lib e w (Ext name) bytes)"
  by (simp add: CreateFile_def validateFile_fresh ioCopy_def seekStart_def split: option.split)

lemma createHashed_eq:
  "createHashed lib e w ext buf =
     (case queryErr e of
        Some err \<Rightarrow>
          (httpError (''failed to query DynamoDB: '' @ err) 500,
           logCall (Query (calculateHash lib buf)) w)
      | None \<Rightarrow>
          (case filter (\<lambda>m. Hash m = calculateHash lib buf) (table w) of
             [] \<Rightarrow> createNew e (logCall (Query (calculateHash lib buf)) w) (calculateHash lib buf) ext buf
           | m # rest \<Rightarrow> createExisting e (logCall (Query (calculateHash lib buf)) w) m))"
  by (simp add: createHashed_def getFileIDByHash_def dbQuery_def calculateHash_nonempty
      split: option.split list.split)

lemma createExisting_eq:
  "createExisting e w m =
     (case presignErr e of
        Some err \<Rightarrow> (httpError err 500, logCall (Presign (ID m @ Extension m)) w)
      | None \<Rightarrow>
          (Response 200
             (Json \<lparr>Metadata = m,
                    PresignedURL =
                      replaceLocalstackHostWithLocalhost (presignURL e (ID m @ Extension m))\<rparr>),
           logCall (Presign (ID m @ Extension m)) w))"
  by (simp add: createExisting_def generatePresignedURL_def s3Presign_def split: option.split)

lemma createNew_201:
  assumes "fst (createNew e w h ext buf) = Response 201 (Json resp)"
  shows "Metadata resp = newMetadata e h ext \<and>
         table (snd (createNew e w h ext buf)) = putItem (newMetadata e h ext) (table w) \<and>
         bucket (snd (createNew e w h ext buf)) = (bucket w)(newID e @ ext \<mapsto> buf)"
  using assms
  by (auto simp add: createNew_def uploadToS3_def saveMetadataToDB_def generatePresignedURL_def
      store_defs httpError_def newMetadata_def split: option.splits if_splits)

lemma createNew_ok:
  assumes "putObjectErr e = None" and "putItemErr e = None" and "presignErr e = None"
    and "newID e \<noteq> []" and "h \<noteq> []"
  shows "createNew e w h ext buf =
          (Response 201
             (Json \<lparr>Metadata = newMetadata e h ext,
                    PresignedURL =
                      replaceLocalstackHostWithLocalhost (presignURL e (newID e @ ext))\<rparr>),
           w\<lparr>bucket := (bucket w)(newID e @ ext \<mapsto> buf),
             table := putItem (newMetadata e h ext) (table w),
             calls := calls w @ [PutObject (newID e @ ext) buf, PutItem (newMetadata e h ext),
                                 Presign (newID e @ ext)]\<rparr>)"
  using assms
  by (simp add: createNew_def uploadToS3_def saveMetadataToDB_def generatePresignedURL_def
      store_defs newMetadata_def)

lemma CreateFile_201:
  assumes "fst (CreateFile lib e w (Inr (name, bytes))) = Response 201 (Json resp)"
  shows "Metadata resp = newMetadata e (calculateHash lib bytes) (Ext name) \<and>
         table (snd (CreateFile lib e w (Inr (name, bytes)))) =
           putItem (Metadata resp) (table w)"
proof -
  let ?h = "calculateHash lib bytes"
  let ?w = "logCall (Query ?h) w"
  have new: "CreateFile lib e w (Inr (name, bytes)) = createNew e ?w ?h (Ext name) bytes"
    using assms
    by (auto simp add: CreateFile_fresh createHashed_eq createExisting_eq httpError_def
        split: if_splits option.splits list.splits)
  with assms createNew_201 [of e ?w ?h "Ext name" bytes resp]
  show ?thesis by (simp add: logCall_def)
qed

lemma status_httpError: "status (httpError msg code) = Some code"
  by (simp add: httpError_def)

lemma status_createNew_failed:
  "putObjectErr e \<noteq> None \<or> putItemErr e \<noteq> None \<Longrightarrow> status (fst (createNew e w h ext buf)) = Some 500"
  by (auto simp add: createNew_def uploadToS3_def saveMetadataToDB_def generatePresignedURL_def
      store_defs status_httpError split: option.split)

lemma CreateFile_valid:
  assumes "validExt name" and "isJPEG lib bytes" and "readErr e = None" and "copyErr e = None"
    and "queryErr e = None"
  shows "CreateFile lib e w (Inr (name, bytes)) =
     (case filter (\<lambda>m. Hash m = calculateHash lib bytes) (table w) of
        [] \<Rightarrow> createNew e (logCall (Query (calculateHash lib bytes)) w)
                (calculateHash lib bytes) (Ext name) bytes
      | m # rest \<Rightarrow> createExisting e (logCall (Query (calculateHash lib bytes)) w) m)"
  using assms by (simp add: CreateFile_fresh isJPEG_def createHashed_eq)

section \<open>What a request does to the table\<close>

lemma table_createNew:
  "table (snd (createNew e w h ext buf)) = table w \<or>
   newID e \<noteq> [] \<and> h \<noteq> [] \<and>
   table (snd (createNew e w h ext buf)) = putItem (newMetadata e h ext) (table w)"
  by (simp add: createNew_def uploadToS3_def generatePresignedURL_def saveMetadataToDB_def
      store_defs newMetadata_def split: option.split)

lemma table_createHashed:
  "table (snd (createHashed lib e w ext buf)) = table w \<or>
   newID e \<noteq> [] \<and>
   table (snd (createHashed lib e w ext buf)) =
     putItem (newMetadata e (calculateHash lib buf) ext) (table w)"
  using table_createNew [of e "logCall (Query (calculateHash lib buf)) w" "calculateHash lib buf" ext buf]
  by (auto simp add: createHashed_eq createExisting_eq logCall_def split: option.split list.split)

lemma table_CreateFile:
  "table (snd (CreateFile lib e w r)) = table w \<or>
   (\<exists>h ext. newID e \<noteq> [] \<and> h \<noteq> [] \<and>
      table (snd (CreateFile lib e w r)) = putItem (newMetadata e h ext) (table w))"
proof (cases r)
  case (Inl err)
  then show ?thesis by (simp add: CreateFile_def)
next
  case (Inr p)
  obtain name bytes where p: "p = (name, bytes)" by (cases p)
  have "CreateFile lib e w r = createHashed lib e w (Ext name) bytes \<or>
        snd (CreateFile lib e w r) = w"
    using Inr p by (simp add: CreateFile_fresh split: option.split)
  then show ?thesis
    using table_createHashed [of lib e w "Ext name" bytes] calculateHash_nonempty [of lib bytes]
    by metis
qed

lemma table_GetFile: "table (snd (GetFile e w i)) = table w"
  by (simp add: GetFile_def retrieveMetadataFromDB_def generatePresignedURL_def store_defs
      split: option.split)

lemma table_DeleteFile:
  "table (snd (DeleteFile e w i)) = table w \<or>
   table (snd (DeleteFile e w i)) = deleteItem i (table w)"
  by (simp add: DeleteFile_def retrieveMetadataFromDB_def store_defs split: option.split)

lemma table_routes:
  "table (snd (routes lib e w q)) = table w \<or>
   (\<exists>i. table (snd (routes lib e w q)) = deleteItem i (table w)) \<or>
   (\<exists>h ext. newID e \<noteq> [] \<and> h \<noteq> [] \<and>
      table (snd (routes lib e w q)) = putItem (newMetadata e h ext) (table w))"
proof (cases q)
  case (POST_file r)
  then show ?thesis using table_CreateFile [of lib e w r] by auto
next
  case (GET_file i)
  then show ?thesis by (simp add: table_GetFile)
next
  case (DELETE_file i)
  then show ?thesis using table_DeleteFile [of e w i] by auto
qed

lemma routes_nonempty:
  assumes "\<forall>r \<in> set (table w). ID r \<noteq> [] \<and> Hash r \<noteq> []"
  shows "\<forall>r \<in> set (table (snd (routes lib e w q))). ID r \<noteq> [] \<and> Hash r \<noteq> []"
proof -
  consider
      (same) "table (snd (routes lib e w q)) = table w"
    | (del) i where "table (snd (routes lib e w q)) = deleteItem i (table w)"
    | (put) h ext where "newID e \<noteq> []" "h \<noteq> []"
        "table (snd (routes lib e w q)) = putItem (newMetadata e h ext) (table w)"
    using table_routes [of lib e w q] by blast
  then show ?thesis
  proof cases
    case same
    with assms show ?thesis by simp
  next
    case del
    with assms set_deleteItem [of i "table w"] show ?thesis by auto
  next
    case put
    have "ID (newMetadata e h ext) \<noteq> [] \<and> Hash (newMetadata e h ext) \<noteq> []"
      using put by (simp add: newMetadata_def)
    with put assms set_putItem [of "newMetadata e h ext" "table w"] show ?thesis by auto
  qed
qed

lemma serve_nonempty:
  "\<forall>r \<in> set (table w). ID r \<noteq> [] \<and> Hash r \<noteq> [] \<Longrightarrow>
   \<forall>r \<in> set (table (serve lib w rs)). ID r \<noteq> [] \<and> Hash r \<noteq> []"
proof (induction rs arbitrary: w)
  case Nil
  then show ?case by simp
next
  case (Cons a rs)
  obtain e q where a: "a = (e, q)" by (cases a)
  show ?case
    using Cons.IH [OF routes_nonempty [OF Cons.prems, of lib e q]] a by simp
qed

lemma routes_keepsRecord:
  assumes "getItem (table w) i = Some m" and "newID e \<noteq> i"
  shows "getItem (table (snd (routes lib e w q))) i = Some m \<or>
         getItem (table (snd (routes lib e w q))) i = None"
proof -
  consider
      (same) "table (snd (routes lib e w q)) = table w"
    | (del) j where "table (snd (routes lib e w q)) = deleteItem j (table w)"
    | (put) h ext where
        "table (snd (routes lib e w q)) = putItem (newMetadata e h ext) (table w)"
    using table_routes [of lib e w q] by blast
  then show ?thesis
  proof cases
    case same
    with assms show ?thesis by simp
  next
    case del
    with assms show ?thesis by (simp add: getItem_deleteItem)
  next
    case put
    with assms show ?thesis by (simp add: getItem_putItem newMetadata_def)
  qed
qed

lemma routes_keepsAbsent:
  assumes "getItem (table w) i = None" and "newID e \<noteq> i"
  shows "getItem (table (snd (routes lib e w q))) i = None"
proof -
  consider
      (same) "table (snd (routes lib e w q)) = table w"
    | (del) j where "table (snd (routes lib e w q)) = deleteItem j (table w)"
    | (put) h ext where
        "table (snd (routes lib e w q)) = putItem (newMetadata e h ext) (table w)"
    using table_routes [of lib e w q] by blast
  then show ?thesis
  proof cases
    case same
    with assms show ?thesis by simp
  next
    case del
    with assms show ?thesis by (simp add: getItem_deleteItem)
  next
    case put
    with assms show ?thesis by (simp add: getItem_putItem newMetadata_def)
  qed
qed

lemma serve_keepsAbsent:
  "getItem (table w) i = None \<Longrightarrow> \<forall>(e, q) \<in> set rs. newID e \<noteq> i \<Longrightarrow>
   getItem (table (serve lib w rs)) i = None"
proof (induction rs arbitrary: w)
  case Nil
  then show ?case by simp
next
  case (Cons a rs)
  obtain e q where a: "a = (e, q)" by (cases a)
  have fresh: "newID e \<noteq> i" using Cons.prems(2) a by simp
  have rest: "\<forall>(e, q) \<in> set rs. newID e \<noteq> i" using Cons.prems(2) by simp
  show ?case
    using Cons.IH [OF routes_keepsAbsent [OF Cons.prems(1) fresh, of lib q] rest] a by simp
qed

lemma serve_keepsRecord:
  "getItem (table w) i = Some m \<Longrightarrow> \<forall>(e, q) \<in> set rs. newID e \<noteq> i \<Longrightarrow>
   getItem (table (serve lib w rs)) i = Some m \<or> getItem (table (serve lib w rs)) i = None"
proof (induction rs arbitrary: w)
  case Nil
  then show ?case by simp
next
  case (Cons a rs)
  obtain e q where a: "a = (e, q)" by (cases a)
  have fresh: "newID e \<noteq> i" using Cons.prems(2) a by simp
  have rest: "\<forall>(e, q) \<in> set rs. newID e \<noteq> i" using Cons.prems(2) by simp
  from routes_keepsRecord [OF Cons.prems(1) fresh, of lib q]
  show ?case
  proof
    assume "getItem (table (snd (routes lib e w q))) i = Some m"
    from Cons.IH [OF this rest] a show ?thesis by simp
  next
    assume "getItem (table (snd (routes lib e w q))) i = None"
    from serve_keepsAbsent [OF this rest] a show ?thesis by simp
  qed
qed

section \<open>The concrete inputs, evaluated\<close>

lemma ex_hash: "calculateHash exLib exJpeg = exHash"
  by code_simp

lemma ex_newID:
  "newID exEnv = ''17f6c3d2-4415-46ec-a70c-741127b73c20''"
  "newID exEnv2 = ''d4d021a1-f9d9-437c-88c4-559eb7d69cca''"
  by code_simp+

lemma ex_Ext: "Ext ''a.jpg'' = ''.jpg''" "Ext ''b.jpeg'' = ''.jpeg''" "Ext ''photo.JPG'' = ''.JPG''"
  by (simp_all add: Ext_def)

lemma ex_validExt: "validExt ''a.jpg''" "validExt ''b.jpeg''"
  by (simp_all add: validExt_def ex_Ext)

lemma ex_sniff: "DetectContentType exLib (sniffBuffer exJpeg) = ''image/jpeg''"
  by (simp add: exLib_def exDetect_def sniffBuffer_def exJpeg_def)

lemma ex_isJPEG: "isJPEG exLib exJpeg"
  using ex_sniff by (simp add: isJPEG_def exJpeg_def)

lemma ex_create:
  "CreateFile exLib exEnv emptyWorld (Inr (''a.jpg'', exJpeg)) =
     (Response 201
        (Json \<lparr>Metadata = exMeta,
               PresignedURL = ''http://localhost:4566/file-storage-bucket/17f6c3d2-4415-46ec-a70c-741127b73c20.jpg''\<rparr>),
      storedWorld\<lparr>calls := [Query exHash, PutObject ''17f6c3d2-4415-46ec-a70c-741127b73c20.jpg'' exJpeg, PutItem exMeta,
                               Presign ''17f6c3d2-4415-46ec-a70c-741127b73c20.jpg'']\<rparr>)"
proof -
  have env: "readErr exEnv = None" "copyErr exEnv = None" "queryErr exEnv = None"
    "putObjectErr exEnv = None" "putItemErr exEnv = None" "presignErr exEnv = None"
    "newID exEnv = ''17f6c3d2-4415-46ec-a70c-741127b73c20''" "now exEnv = ''2024-11-27T12:25:35Z''"
    "presignURL exEnv ''17f6c3d2-4415-46ec-a70c-741127b73c20.jpg'' =
       ''http://localstack:4566/file-storage-bucket/17f6c3d2-4415-46ec-a70c-741127b73c20.jpg''"
    using ex_newID(1) by (simp_all add: exEnv_def)
  have hne: "exHash \<noteq> []" by (simp add: exHash_def)
  have url: "replaceLocalstackHostWithLocalhost
               ''http://localstack:4566/file-storage-bucket/17f6c3d2-4415-46ec-a70c-741127b73c20.jpg'' =
             ''http://localhost:4566/file-storage-bucket/17f6c3d2-4415-46ec-a70c-741127b73c20.jpg''"
    by (simp add: replaceLocalstackHostWithLocalhost_def)
  have ne: "exJpeg \<noteq> []" by (simp add: exJpeg_def)
  have meta: "newMetadata exEnv exHash ''.jpg'' = exMeta"
    by (simp add: newMetadata_def env exMeta_def)
  have new: "createNew exEnv (logCall (Query exHash) emptyWorld) exHash ''.jpg'' exJpeg =
       (Response 201
        (Json \<lparr>Metadata = exMeta,
               PresignedURL = ''http://localhost:4566/file-storage-bucket/17f6c3d2-4415-46ec-a70c-741127b73c20.jpg''\<rparr>),
      storedWorld\<lparr>calls := [Query exHash, PutObject ''17f6c3d2-4415-46ec-a70c-741127b73c20.jpg'' exJpeg, PutItem exMeta,
                               Presign ''17f6c3d2-4415-46ec-a70c-741127b73c20.jpg'']\<rparr>)"
    using createNew_ok [of exEnv exHash "logCall (Query exHash) emptyWorld" "''.jpg''" exJpeg]
    by (simp add: env hne url meta logCall_def emptyWorld_def storedWorld_def)
  have empty: "table emptyWorld = []" by (simp add: emptyWorld_def)
  show ?thesis
    by (simp add: CreateFile_fresh ex_validExt env ne ex_sniff createHashed_eq ex_hash ex_Ext
        new empty)
qed

lemma ex_stored: "getItem (table storedWorld) ''17f6c3d2-4415-46ec-a70c-741127b73c20'' = Some exMeta"
  by (simp add: storedWorld_def getItem_def exMeta_def)

lemma ex_png: "\<not> validExt ''a.png''"
  by (simp add: validExt_def Ext_def)

lemma ex_text: "exText \<noteq> []" "DetectContentType exLib (sniffBuffer exText) \<noteq> ''image/jpeg''"
  by (simp_all add: exText_def exLib_def exDetect_def sniffBuffer_def)

lemma ex_miss: "filter (\<lambda>m. Hash m = calculateHash exLib exJpeg) (table emptyWorld) = []"
  by (simp add: emptyWorld_def)

lemma ex_hit: "filter (\<lambda>x. Hash x = calculateHash exLib exJpeg) (table storedWorld) = exMeta # []"
  by (simp add: ex_hash storedWorld_def exMeta_def)

lemma ex_noFaults: "noFaults exEnv"
  by (simp add: noFaults_def exEnv_def)

lemma ex_dedup:
  "CreateFile exLib exEnv (storedWorld\<lparr>calls := cs\<rparr>) (Inr (''a.jpg'', exJpeg)) =
     (Response 200
        (Json \<lparr>Metadata = exMeta,
               PresignedURL = ''http://localhost:4566/file-storage-bucket/17f6c3d2-4415-46ec-a70c-741127b73c20.jpg''\<rparr>),
      storedWorld\<lparr>calls := cs @ [Query exHash, Presign ''17f6c3d2-4415-46ec-a70c-741127b73c20.jpg'']\<rparr>)"
proof -
  have env: "readErr exEnv = None" "copyErr exEnv = None" "queryErr exEnv = None"
    "presignErr exEnv = None"
    by (simp_all add: exEnv_def)
  have hit: "filter (\<lambda>x. Hash x = exHash) (table storedWorld) = exMeta # []"
    using ex_hit by (simp add: ex_hash)
  have key: "ID exMeta @ Extension exMeta = ''17f6c3d2-4415-46ec-a70c-741127b73c20.jpg''" by (simp add: exMeta_def)
  have url: "replaceLocalstackHostWithLocalhost (presignURL exEnv ''17f6c3d2-4415-46ec-a70c-741127b73c20.jpg'') =
      ''http://localhost:4566/file-storage-bucket/17f6c3d2-4415-46ec-a70c-741127b73c20.jpg''"
    by (simp add: replaceLocalstackHostWithLocalhost_def exEnv_def)
  show ?thesis
    by (simp add: CreateFile_valid [OF ex_validExt(1) ex_isJPEG env(1) env(2) env(3)] hit
        createExisting_eq env(4) key url ex_hash logCall_def)
qed

lemma ex_hash2:
  "calculateHash exLib exJpeg2 = ''00000000000000000000000000000000000000000000000000000000000003b7''"
  by code_simp

lemma ex_create2:
  "table (snd (CreateFile exLib exEnv2 storedWorld (Inr (''b.jpeg'', exJpeg2)))) =
     [exMeta,
      \<lparr>ID = ''d4d021a1-f9d9-437c-88c4-559eb7d69cca'',
       Hash = ''00000000000000000000000000000000000000000000000000000000000003b7'',
       Extension = ''.jpeg'', CreatedAt = ''2024-11-27T12:31:02Z'',
       UpdatedAt = ''2024-11-27T12:31:02Z''\<rparr>]"
proof -
  have env: "readErr exEnv2 = None" "copyErr exEnv2 = None" "queryErr exEnv2 = None"
    "putObjectErr exEnv2 = None" "putItemErr exEnv2 = None" "presignErr exEnv2 = None"
    "newID exEnv2 = ''d4d021a1-f9d9-437c-88c4-559eb7d69cca''" "now exEnv2 = ''2024-11-27T12:31:02Z''"
    using ex_newID(2) by (simp_all add: exEnv2_def exEnv_def)
  have jpeg: "isJPEG exLib exJpeg2"
    by (simp add: isJPEG_def exLib_def exDetect_def sniffBuffer_def exJpeg2_def)
  have u: "newID exEnv2 \<noteq> []" by (simp add: env)
  have miss: "filter (\<lambda>m. Hash m = calculateHash exLib exJpeg2) (table storedWorld) = []"
    by (simp add: ex_hash2 storedWorld_def exMeta_def exHash_def)
  show ?thesis
    using createNew_ok [OF env(4) env(5) env(6) u calculateHash_nonempty,
        of "logCall (Query (calculateHash exLib exJpeg2)) storedWorld" exLib exJpeg2
          "Ext ''b.jpeg''" exJpeg2]
    by (simp add: CreateFile_valid [OF ex_validExt(2) jpeg env(1) env(2) env(3)] miss)
       (simp add: logCall_def storedWorld_def newMetadata_def env ex_hash2 ex_Ext exMeta_def)
qed

section \<open>Retrieve\<close>

text \<open>
  C10. A \<^verbatim>\<open>GET /file/{id}\<close> request, whatever its outcome, leaves the bucket and the
  table as they were, and the only calls it issues are the lookup of the item and, when a
  record is found, the signing of a URL: no put and no delete on either store.
\<close>

theorem GetFile_writes_nothing:
  "bucket (snd (GetFile e w i)) = bucket w \<and>
   table (snd (GetFile e w i)) = table w \<and>
   (calls (snd (GetFile e w i)) = calls w @ [GetItem i] \<or>
    (\<exists>k. calls (snd (GetFile e w i)) = calls w @ [GetItem i, Presign k]))"
  by (simp add: GetFile_def retrieveMetadataFromDB_def generatePresignedURL_def store_defs
      split: option.split)

section \<open>Delete\<close>

text \<open>
  C1. A \<^verbatim>\<open>DELETE /file/{id}\<close> request for an identifier the table has no item for,
  with a lookup that returns no error: the handler issues the lookup and nothing else, so
  neither store is touched, but it panics on the nil record instead of answering 404.
  \<^verbatim>\<open>GetFile\<close> answers 404 on the same input.
\<close>

theorem DeleteFile_missing_record_panics:
  "DeleteFile exEnv emptyWorld ''abc'' = (Panic, emptyWorld\<lparr>calls := [GetItem ''abc'']\<rparr>) \<and>
   status (fst (DeleteFile exEnv emptyWorld ''abc'')) \<noteq> Some 404 \<and>
   fst (GetFile exEnv emptyWorld ''abc'') = httpError ''file not found'' 404"
  by (simp add: DeleteFile_def GetFile_def retrieveMetadataFromDB_def store_defs getItem_def
      exEnv_def emptyWorld_def)

text \<open>
  C7. A \<^verbatim>\<open>DELETE /file/{id}\<close> request whose lookup finds a record: the object delete is
  issued right after the lookup, and the metadata delete, if issued at all, after it; the
  response is 500 when either delete fails and 204 when both succeed; when the object
  delete fails, no metadata delete is issued and both stores are unchanged; when the object
  delete succeeds, the metadata delete is issued next and is the last call of the request;
  when it then fails, the table is unchanged and the object is gone; when both succeed, the
  object is gone and the table is the old one without the items of that id.
\<close>

theorem DeleteFile_object_then_metadata:
  assumes "getItemErr e = None" and "getItem (table w) i = Some m"
  shows "(\<exists>rest. calls (snd (DeleteFile e w i)) =
            calls w @ GetItem i # DeleteObject (ID m @ Extension m) # rest \<and>
            (rest = [] \<or> rest = [DeleteItem i])) \<and>
         (deleteObjectErr e \<noteq> None \<or> deleteItemErr e \<noteq> None \<longrightarrow>
            status (fst (DeleteFile e w i)) = Some 500) \<and>
         (deleteObjectErr e = None \<and> deleteItemErr e = None \<longrightarrow>
            status (fst (DeleteFile e w i)) = Some 204) \<and>
         (deleteObjectErr e \<noteq> None \<longrightarrow>
            table (snd (DeleteFile e w i)) = table w \<and>
            bucket (snd (DeleteFile e w i)) = bucket w \<and>
            calls (snd (DeleteFile e w i)) =
              calls w @ [GetItem i, DeleteObject (ID m @ Extension m)]) \<and>
         (deleteObjectErr e = None \<and> deleteItemErr e \<noteq> None \<longrightarrow>
            table (snd (DeleteFile e w i)) = table w \<and>
            bucket (snd (DeleteFile e w i)) = (bucket w)(ID m @ Extension m := None) \<and>
            calls (snd (DeleteFile e w i)) =
              calls w @ [GetItem i, DeleteObject (ID m @ Extension m), DeleteItem i]) \<and>
         (deleteObjectErr e = None \<longrightarrow>
            calls (snd (DeleteFile e w i)) =
              calls w @ [GetItem i, DeleteObject (ID m @ Extension m), DeleteItem i]) \<and>
         (deleteObjectErr e = None \<and> deleteItemErr e = None \<longrightarrow>
            fst (DeleteFile e w i) = Response 204 NoBody \<and>
            table (snd (DeleteFile e w i)) = deleteItem i (table w) \<and>
            getItem (table (snd (DeleteFile e w i))) i = None \<and>
            bucket (snd (DeleteFile e w i)) = (bucket w)(ID m @ Extension m := None))"
  using assms
  by (auto simp add: DeleteFile_def retrieveMetadataFromDB_def store_defs httpError_def
      getItem_deleteItem split: option.split)

theorem DeleteFile_object_then_metadata_witness:
  "getItemErr exEnv = None \<and>
   getItem (table storedWorld) ''17f6c3d2-4415-46ec-a70c-741127b73c20'' = Some exMeta \<and>
   status (fst (DeleteFile (exEnv\<lparr>deleteItemErr := Some ''timeout''\<rparr>) storedWorld
                  ''17f6c3d2-4415-46ec-a70c-741127b73c20'')) = Some 500 \<and>
   table (snd (DeleteFile (exEnv\<lparr>deleteItemErr := Some ''timeout''\<rparr>) storedWorld
                 ''17f6c3d2-4415-46ec-a70c-741127b73c20'')) = [exMeta] \<and>
   bucket (snd (DeleteFile (exEnv\<lparr>deleteItemErr := Some ''timeout''\<rparr>) storedWorld
                  ''17f6c3d2-4415-46ec-a70c-741127b73c20''))
     ''17f6c3d2-4415-46ec-a70c-741127b73c20.jpg'' = None \<and>
   calls (snd (DeleteFile (exEnv\<lparr>deleteItemErr := Some ''timeout''\<rparr>) storedWorld
                 ''17f6c3d2-4415-46ec-a70c-741127b73c20'')) =
     [GetItem ''17f6c3d2-4415-46ec-a70c-741127b73c20'',
      DeleteObject ''17f6c3d2-4415-46ec-a70c-741127b73c20.jpg'',
      DeleteItem ''17f6c3d2-4415-46ec-a70c-741127b73c20''] \<and>
   status (fst (DeleteFile (exEnv\<lparr>deleteObjectErr := Some ''AccessDenied''\<rparr>) storedWorld
                  ''17f6c3d2-4415-46ec-a70c-741127b73c20'')) = Some 500 \<and>
   calls (snd (DeleteFile (exEnv\<lparr>deleteObjectErr := Some ''AccessDenied''\<rparr>) storedWorld
                 ''17f6c3d2-4415-46ec-a70c-741127b73c20'')) =
     [GetItem ''17f6c3d2-4415-46ec-a70c-741127b73c20'',
      DeleteObject ''17f6c3d2-4415-46ec-a70c-741127b73c20.jpg''] \<and>
   status (fst (DeleteFile exEnv storedWorld ''17f6c3d2-4415-46ec-a70c-741127b73c20'')) =
     Some 204 \<and>
   calls (snd (DeleteFile exEnv storedWorld ''17f6c3d2-4415-46ec-a70c-741127b73c20'')) =
     [GetItem ''17f6c3d2-4415-46ec-a70c-741127b73c20'',
      DeleteObject ''17f6c3d2-4415-46ec-a70c-741127b73c20.jpg'',
      DeleteItem ''17f6c3d2-4415-46ec-a70c-741127b73c20''] \<and>
   table (snd (DeleteFile exEnv storedWorld ''17f6c3d2-4415-46ec-a70c-741127b73c20'')) = []"
proof -
  let ?i = "''17f6c3d2-4415-46ec-a70c-741127b73c20''"
  let ?e1 = "exEnv\<lparr>deleteItemErr := Some ''timeout''\<rparr>"
  let ?e2 = "exEnv\<lparr>deleteObjectErr := Some ''AccessDenied''\<rparr>"
  have a: "getItemErr exEnv = None" "getItemErr ?e1 = None" "getItemErr ?e2 = None"
    by (simp_all add: exEnv_def)
  have key: "ID exMeta @ Extension exMeta = ''17f6c3d2-4415-46ec-a70c-741127b73c20.jpg''"
    by (simp add: exMeta_def)
  have w: "table storedWorld = [exMeta]" "calls storedWorld = []"
    "bucket storedWorld = [''17f6c3d2-4415-46ec-a70c-741127b73c20.jpg'' \<mapsto> exJpeg]"
    by (simp_all add: storedWorld_def)
  have errs: "deleteObjectErr exEnv = None" "deleteItemErr exEnv = None"
    "deleteObjectErr ?e1 = None" "deleteItemErr ?e1 \<noteq> None" "deleteObjectErr ?e2 \<noteq> None"
    by (simp_all add: exEnv_def)
  note t0 = DeleteFile_object_then_metadata [OF a(1) ex_stored, unfolded key w]
  note t1 = DeleteFile_object_then_metadata [OF a(2) ex_stored, unfolded key w]
  note t2 = DeleteFile_object_then_metadata [OF a(3) ex_stored, unfolded key w]
  have s1: "status (fst (DeleteFile ?e1 storedWorld ?i)) = Some 500"
    using t1 errs(4) by blast
  have r1: "table (snd (DeleteFile ?e1 storedWorld ?i)) = [exMeta] \<and>
      bucket (snd (DeleteFile ?e1 storedWorld ?i)) =
        [''17f6c3d2-4415-46ec-a70c-741127b73c20.jpg'' \<mapsto> exJpeg]
        (''17f6c3d2-4415-46ec-a70c-741127b73c20.jpg'' := None) \<and>
      calls (snd (DeleteFile ?e1 storedWorld ?i)) =
        [] @ [GetItem ?i, DeleteObject ''17f6c3d2-4415-46ec-a70c-741127b73c20.jpg'',
              DeleteItem ?i]"
    using t1 errs(3) errs(4) by blast
  have s2: "status (fst (DeleteFile ?e2 storedWorld ?i)) = Some 500"
    using t2 errs(5) by blast
  have r2: "calls (snd (DeleteFile ?e2 storedWorld ?i)) =
        [] @ [GetItem ?i, DeleteObject ''17f6c3d2-4415-46ec-a70c-741127b73c20.jpg'']"
    using t2 errs(5) by blast
  have s0: "status (fst (DeleteFile exEnv storedWorld ?i)) = Some 204"
    using t0 errs(1) errs(2) by blast
  have r0: "calls (snd (DeleteFile exEnv storedWorld ?i)) =
        [] @ [GetItem ?i, DeleteObject ''17f6c3d2-4415-46ec-a70c-741127b73c20.jpg'',
              DeleteItem ?i]"
    using t0 errs(1) by blast
  have d: "deleteItem ?i [exMeta] = []"
    by (simp add: deleteItem_def exMeta_def)
  have "table (snd (DeleteFile exEnv storedWorld ?i)) = deleteItem ?i [exMeta]"
    using t0 errs(1) errs(2) by blast
  then have tb0: "table (snd (DeleteFile exEnv storedWorld ?i)) = []"
    unfolding d .
  from a(1) ex_stored s1 r1 s2 r2 s0 r0 tb0 show ?thesis by simp
qed

section \<open>Persistence of metadata\<close>

text \<open>
  C8. \<^verbatim>\<open>saveMetadataToDB\<close> given a record whose id or hash is empty returns its error
  and leaves the stores and the call log as they were (no \<^verbatim>\<open>PutItem\<close> is issued); a
  record it adds to the table has a non-empty id and hash; hence, from a table whose records
  all have a non-empty id and hash (the empty table for one), every record in the table
  after any sequence of requests has a non-empty id and hash.
\<close>

theorem saveMetadataToDB_rejects_empty:
  "(ID m = [] \<or> Hash m = [] \<longrightarrow>
      saveMetadataToDB e w m = (Some ''metadata must have non-empty ID and Hash'', w)) \<and>
   (\<forall>r \<in> set (table (snd (saveMetadataToDB e w m))).
      r \<in> set (table w) \<or> ID r \<noteq> [] \<and> Hash r \<noteq> []) \<and>
   ((\<forall>r \<in> set (table w). ID r \<noteq> [] \<and> Hash r \<noteq> []) \<longrightarrow>
      (\<forall>r \<in> set (table (serve lib w rs)). ID r \<noteq> [] \<and> Hash r \<noteq> []))"
proof (intro conjI impI)
  assume "ID m = [] \<or> Hash m = []"
  then show "saveMetadataToDB e w m = (Some ''metadata must have non-empty ID and Hash'', w)"
    by (simp add: saveMetadataToDB_def)
next
  show "\<forall>r \<in> set (table (snd (saveMetadataToDB e w m))).
          r \<in> set (table w) \<or> ID r \<noteq> [] \<and> Hash r \<noteq> []"
    using set_putItem [of m "table w"]
    by (auto simp add: saveMetadataToDB_def dbPutItem_def logCall_def split: option.split)
next
  assume "\<forall>r \<in> set (table w). ID r \<noteq> [] \<and> Hash r \<noteq> []"
  then show "\<forall>r \<in> set (table (serve lib w rs)). ID r \<noteq> [] \<and> Hash r \<noteq> []"
    by (rule serve_nonempty)
qed

theorem saveMetadataToDB_rejects_empty_witness:
  "Hash (exMeta\<lparr>Hash := []\<rparr>) = [] \<and>
   saveMetadataToDB exEnv emptyWorld (exMeta\<lparr>Hash := []\<rparr>) =
     (Some ''metadata must have non-empty ID and Hash'', emptyWorld) \<and>
   table emptyWorld = [] \<and>
   table (serve exLib emptyWorld [(exEnv, POST_file (Inr (''a.jpg'', exJpeg)))]) = [exMeta] \<and>
   ID exMeta \<noteq> [] \<and> Hash exMeta \<noteq> []"
proof -
  note t = saveMetadataToDB_rejects_empty
    [where m = "exMeta\<lparr>Hash := []\<rparr>" and e = exEnv and w = emptyWorld and lib = exLib
       and rs = "[(exEnv, POST_file (Inr (''a.jpg'', exJpeg)))]"]
  have a: "Hash (exMeta\<lparr>Hash := []\<rparr>) = []" by simp
  have b: "saveMetadataToDB exEnv emptyWorld (exMeta\<lparr>Hash := []\<rparr>) =
     (Some ''metadata must have non-empty ID and Hash'', emptyWorld)"
    using t a by blast
  have c: "table emptyWorld = []" by (simp add: emptyWorld_def)
  have d: "table (serve exLib emptyWorld [(exEnv, POST_file (Inr (''a.jpg'', exJpeg)))]) =
      [exMeta]"
    by (simp add: ex_create storedWorld_def)
  have "\<forall>r \<in> set (table (serve exLib emptyWorld [(exEnv, POST_file (Inr (''a.jpg'', exJpeg)))])).
          ID r \<noteq> [] \<and> Hash r \<noteq> []"
    using t c by simp
  then have e: "ID exMeta \<noteq> [] \<and> Hash exMeta \<noteq> []"
    unfolding d by simp
  from a b c d e show ?thesis by blast
qed

text \<open>
  C9 (amended). The record of a successful upload (status 201) has \<^verbatim>\<open>CreatedAt\<close> and
  \<^verbatim>\<open>UpdatedAt\<close> both equal to the one formatted time of the request, and it is the
  record stored under its id. For a record stored under an id, after any sequence of
  requests none of which draws that id again from \<^verbatim>\<open>uuid.New()\<close>, the table holds
  under that id either the very same record, every field unchanged, or nothing (the record
  was deleted).
\<close>

theorem timestamps_set_once:
  "(fst (CreateFile lib e w (Inr (name, bytes))) = Response 201 (Json resp) \<longrightarrow>
      CreatedAt (Metadata resp) = now e \<and> UpdatedAt (Metadata resp) = now e \<and>
      getItem (table (snd (CreateFile lib e w (Inr (name, bytes))))) (ID (Metadata resp)) =
        Some (Metadata resp)) \<and>
   (getItem (table w) i = Some m \<and> (\<forall>(e', q) \<in> set rs. newID e' \<noteq> i) \<longrightarrow>
      getItem (table (serve lib w rs)) i = Some m \<or>
      getItem (table (serve lib w rs)) i = None)"
proof (rule conjI)
  show "fst (CreateFile lib e w (Inr (name, bytes))) = Response 201 (Json resp) \<longrightarrow>
      CreatedAt (Metadata resp) = now e \<and> UpdatedAt (Metadata resp) = now e \<and>
      getItem (table (snd (CreateFile lib e w (Inr (name, bytes))))) (ID (Metadata resp)) =
        Some (Metadata resp)"
  proof (rule impI)
    assume created: "fst (CreateFile lib e w (Inr (name, bytes))) = Response 201 (Json resp)"
    from CreateFile_201 [OF created]
    show "CreatedAt (Metadata resp) = now e \<and> UpdatedAt (Metadata resp) = now e \<and>
      getItem (table (snd (CreateFile lib e w (Inr (name, bytes))))) (ID (Metadata resp)) =
        Some (Metadata resp)"
      by (simp add: newMetadata_def getItem_putItem)
  qed
next
  show "getItem (table w) i = Some m \<and> (\<forall>(e', q) \<in> set rs. newID e' \<noteq> i) \<longrightarrow>
      getItem (table (serve lib w rs)) i = Some m \<or>
      getItem (table (serve lib w rs)) i = None"
  proof (rule impI)
    assume h: "getItem (table w) i = Some m \<and> (\<forall>(e', q) \<in> set rs. newID e' \<noteq> i)"
    show "getItem (table (serve lib w rs)) i = Some m \<or>
      getItem (table (serve lib w rs)) i = None"
      by (rule serve_keepsRecord [OF conjunct1 [OF h] conjunct2 [OF h]])
  qed
qed

theorem timestamps_set_once_witness:
  "fst (CreateFile exLib exEnv emptyWorld (Inr (''a.jpg'', exJpeg))) =
     Response 201
       (Json \<lparr>Metadata = exMeta,
              PresignedURL = ''http://localhost:4566/file-storage-bucket/17f6c3d2-4415-46ec-a70c-741127b73c20.jpg''\<rparr>) \<and>
   CreatedAt exMeta = now exEnv \<and> UpdatedAt exMeta = now exEnv \<and>
   getItem (table storedWorld) ''17f6c3d2-4415-46ec-a70c-741127b73c20'' = Some exMeta \<and>
   newID exEnv2 \<noteq> ''17f6c3d2-4415-46ec-a70c-741127b73c20'' \<and>
   length (table (serve exLib storedWorld
        [(exEnv2, POST_file (Inr (''b.jpeg'', exJpeg2))), (exEnv2, GET_file ''17f6c3d2-4415-46ec-a70c-741127b73c20'')])) = 2 \<and>
   getItem
     (table (serve exLib storedWorld
        [(exEnv2, POST_file (Inr (''b.jpeg'', exJpeg2))), (exEnv2, GET_file ''17f6c3d2-4415-46ec-a70c-741127b73c20'')]))
     ''17f6c3d2-4415-46ec-a70c-741127b73c20'' = Some exMeta"
proof -
  let ?rs = "[(exEnv2, POST_file (Inr (''b.jpeg'', exJpeg2))), (exEnv2, GET_file ''17f6c3d2-4415-46ec-a70c-741127b73c20'')]"
  let ?resp = "\<lparr>Metadata = exMeta,
     PresignedURL = ''http://localhost:4566/file-storage-bucket/17f6c3d2-4415-46ec-a70c-741127b73c20.jpg''\<rparr>"
  note t = timestamps_set_once
    [where lib = exLib and e = exEnv and w = emptyWorld and name = "''a.jpg''"
       and bytes = exJpeg and resp = ?resp]
  note t' = timestamps_set_once
    [where lib = exLib and w = storedWorld and i = "''17f6c3d2-4415-46ec-a70c-741127b73c20''" and m = exMeta and rs = ?rs]
  have created: "fst (CreateFile exLib exEnv emptyWorld (Inr (''a.jpg'', exJpeg))) =
     Response 201 (Json ?resp)"
    by (simp add: ex_create)
  have times: "CreatedAt exMeta = now exEnv \<and> UpdatedAt exMeta = now exEnv"
    using t created by simp
  have u: "newID exEnv2 \<noteq> ''17f6c3d2-4415-46ec-a70c-741127b73c20''" by (simp add: ex_newID)
  then have fresh: "\<forall>(e', q) \<in> set ?rs. newID e' \<noteq> ''17f6c3d2-4415-46ec-a70c-741127b73c20''" by simp
  have final: "table (serve exLib storedWorld ?rs) =
     [exMeta,
      \<lparr>ID = ''d4d021a1-f9d9-437c-88c4-559eb7d69cca'',
       Hash = ''00000000000000000000000000000000000000000000000000000000000003b7'',
       Extension = ''.jpeg'', CreatedAt = ''2024-11-27T12:31:02Z'',
       UpdatedAt = ''2024-11-27T12:31:02Z''\<rparr>]"
    by (simp add: table_GetFile ex_create2)
  have two: "length (table (serve exLib storedWorld ?rs)) = 2"
    unfolding final by simp
  have present: "getItem (table (serve exLib storedWorld ?rs)) ''17f6c3d2-4415-46ec-a70c-741127b73c20'' \<noteq> None"
    unfolding final by (simp add: getItem_def exMeta_def)
  have "getItem (table (serve exLib storedWorld ?rs)) ''17f6c3d2-4415-46ec-a70c-741127b73c20'' = Some exMeta \<or>
        getItem (table (serve exLib storedWorld ?rs)) ''17f6c3d2-4415-46ec-a70c-741127b73c20'' = None"
    using conjunct2 [OF t'] ex_stored fresh by (rule_tac mp) (assumption, rule conjI)
  then have kept:
    "getItem (table (serve exLib storedWorld ?rs)) ''17f6c3d2-4415-46ec-a70c-741127b73c20'' = Some exMeta"
  proof
    assume "getItem (table (serve exLib storedWorld ?rs)) ''17f6c3d2-4415-46ec-a70c-741127b73c20'' = Some exMeta"
    then show ?thesis .
  next
    assume "getItem (table (serve exLib storedWorld ?rs)) ''17f6c3d2-4415-46ec-a70c-741127b73c20'' = None"
    with present show ?thesis by (rule notE)
  qed
  from created conjunct1 [OF times] conjunct2 [OF times] ex_stored u two kept
  show ?thesis by (intro conjI)
qed

text \<open>
  C9 as stated fails when a later upload draws the id of a stored record again: the item
  is put without a condition, so the record stored under that id is replaced, with another
  hash, extension, \<^verbatim>\<open>CreatedAt\<close> and \<^verbatim>\<open>UpdatedAt\<close>.
\<close>

theorem stored_record_redrawn_id_counterexample:
  "getItem (table storedWorld) ''17f6c3d2-4415-46ec-a70c-741127b73c20'' = Some exMeta \<and>
   UpdatedAt exMeta = ''2024-11-27T12:25:35Z'' \<and>
   newID (exEnv\<lparr>now := ''2024-11-27T12:31:02Z''\<rparr>) = ''17f6c3d2-4415-46ec-a70c-741127b73c20'' \<and>
   status (fst (CreateFile exLib (exEnv\<lparr>now := ''2024-11-27T12:31:02Z''\<rparr>) storedWorld
                  (Inr (''b.jpeg'', exJpeg2)))) = Some 201 \<and>
   getItem
     (table (snd (CreateFile exLib (exEnv\<lparr>now := ''2024-11-27T12:31:02Z''\<rparr>) storedWorld
                    (Inr (''b.jpeg'', exJpeg2)))))
     ''17f6c3d2-4415-46ec-a70c-741127b73c20'' =
     Some \<lparr>ID = ''17f6c3d2-4415-46ec-a70c-741127b73c20'',
            Hash = ''00000000000000000000000000000000000000000000000000000000000003b7'',
            Extension = ''.jpeg'', CreatedAt = ''2024-11-27T12:31:02Z'',
            UpdatedAt = ''2024-11-27T12:31:02Z''\<rparr>"
proof -
  let ?e = "exEnv\<lparr>now := ''2024-11-27T12:31:02Z''\<rparr>"
  let ?i = "''17f6c3d2-4415-46ec-a70c-741127b73c20''"
  let ?h = "''00000000000000000000000000000000000000000000000000000000000003b7''"
  let ?m = "\<lparr>ID = ?i, Hash = ?h, Extension = ''.jpeg'', CreatedAt = ''2024-11-27T12:31:02Z'',
            UpdatedAt = ''2024-11-27T12:31:02Z''\<rparr>"
  have id: "newID ?e = ?i"
    using ex_newID(1) by (simp add: newID_def)
  have env: "readErr ?e = None" "copyErr ?e = None" "queryErr ?e = None"
    "putObjectErr ?e = None" "putItemErr ?e = None" "presignErr ?e = None"
    "now ?e = ''2024-11-27T12:31:02Z''"
    by (simp_all add: exEnv_def)
  have jpeg: "isJPEG exLib exJpeg2"
    by (simp add: isJPEG_def exLib_def exDetect_def sniffBuffer_def exJpeg2_def)
  have miss: "filter (\<lambda>m. Hash m = calculateHash exLib exJpeg2) (table storedWorld) = []"
    by (simp add: ex_hash2 storedWorld_def exMeta_def exHash_def)
  have meta: "newMetadata ?e ?h ''.jpeg'' = ?m"
    by (simp add: newMetadata_def id env(7))
  have put: "putItem ?m (table storedWorld) = [?m]"
    by (simp add: storedWorld_def exMeta_def)
  have run0: "CreateFile exLib ?e storedWorld (Inr (''b.jpeg'', exJpeg2)) =
      createNew ?e (logCall (Query (calculateHash exLib exJpeg2)) storedWorld)
        (calculateHash exLib exJpeg2) (Ext ''b.jpeg'') exJpeg2"
    by (simp add: CreateFile_valid [OF ex_validExt(2) jpeg env(1) env(2) env(3)] miss)
  have run: "CreateFile exLib ?e storedWorld (Inr (''b.jpeg'', exJpeg2)) =
      createNew ?e (logCall (Query ?h) storedWorld) ?h ''.jpeg'' exJpeg2"
    using run0 by (simp only: ex_hash2 ex_Ext)
  have hne: "?h \<noteq> []" by simp
  note ok = createNew_ok [OF env(4) env(5) env(6) newID_nonempty hne,
      of "logCall (Query ?h) storedWorld" "''.jpeg''" exJpeg2]
  have st: "status (fst (CreateFile exLib ?e storedWorld (Inr (''b.jpeg'', exJpeg2)))) = Some 201"
    unfolding run ok by simp
  have tb: "table (snd (CreateFile exLib ?e storedWorld (Inr (''b.jpeg'', exJpeg2)))) = [?m]"
    unfolding run ok by (simp add: meta logCall_def put)
  have got: "getItem (table (snd (CreateFile exLib ?e storedWorld (Inr (''b.jpeg'', exJpeg2)))))
      ?i = Some ?m"
    unfolding tb by (simp add: getItem_def)
  have upd: "UpdatedAt exMeta = ''2024-11-27T12:25:35Z''" by (simp add: exMeta_def)
  from ex_stored upd id st got show ?thesis by (intro conjI)
qed

section \<open>Upload\<close>

text \<open>
  C4. The record of a successful upload (status 201) carries as its hash the hexadecimal
  encoding, with the digits \<open>0123456789abcdef\<close>, of the SHA-256 digest of the whole part
  uploaded: 64 characters, which read back pairwise give the high and low half of each of
  the 32 digest bytes; and that record is the one stored under its id.
\<close>

theorem hash_is_hex_digest:
  assumes "fst (CreateFile lib e w (Inr (name, bytes))) = Response 201 (Json resp)"
  shows "Hash (Metadata resp) = EncodeToString (digestBytes (Sum256 lib bytes)) \<and>
         length (Hash (Metadata resp)) = 64 \<and>
         set (Hash (Metadata resp)) \<subseteq> set ''0123456789abcdef'' \<and>
         map hexValue (Hash (Metadata resp)) =
           concat (map (\<lambda>v. [unat v div 16, unat v mod 16]) (digestBytes (Sum256 lib bytes))) \<and>
         getItem (table (snd (CreateFile lib e w (Inr (name, bytes))))) (ID (Metadata resp)) =
           Some (Metadata resp)"
proof -
  have h: "Hash (Metadata resp) = calculateHash lib bytes"
    using CreateFile_201 [OF assms] by (simp add: newMetadata_def)
  have stored:
    "getItem (table (snd (CreateFile lib e w (Inr (name, bytes))))) (ID (Metadata resp)) =
       Some (Metadata resp)"
    using CreateFile_201 [OF assms] by (simp add: getItem_putItem)
  show ?thesis
    using h stored length_calculateHash [of lib bytes]
      set_EncodeToString [of "digestBytes (Sum256 lib bytes)"]
      hexValue_EncodeToString [of "digestBytes (Sum256 lib bytes)"]
    by (simp add: calculateHash_def hextable_def)
qed

theorem hash_is_hex_digest_witness:
  "fst (CreateFile exLib exEnv emptyWorld (Inr (''a.jpg'', exJpeg))) =
     Response 201
       (Json \<lparr>Metadata = exMeta,
              PresignedURL = ''http://localhost:4566/file-storage-bucket/17f6c3d2-4415-46ec-a70c-741127b73c20.jpg''\<rparr>) \<and>
   Hash exMeta = EncodeToString (digestBytes (Sum256 exLib exJpeg)) \<and>
   Hash exMeta = ''00000000000000000000000000000000000000000000000000000000000003b6'' \<and>
   length (Hash exMeta) = 64"
proof -
  let ?resp = "\<lparr>Metadata = exMeta,
     PresignedURL = ''http://localhost:4566/file-storage-bucket/17f6c3d2-4415-46ec-a70c-741127b73c20.jpg''\<rparr>"
  have created: "fst (CreateFile exLib exEnv emptyWorld (Inr (''a.jpg'', exJpeg))) =
     Response 201 (Json ?resp)"
    by (simp add: ex_create)
  have m: "Metadata ?resp = exMeta" by simp
  note t = hash_is_hex_digest [OF created, unfolded m]
  have enc: "Hash exMeta = EncodeToString (digestBytes (Sum256 exLib exJpeg))"
    by (rule conjunct1 [OF t])
  have len: "length (Hash exMeta) = 64"
    by (rule conjunct1 [OF conjunct2 [OF t]])
  have lit: "Hash exMeta = ''00000000000000000000000000000000000000000000000000000000000003b6''"
    by (simp add: exMeta_def exHash_def)
  from created enc lit len show ?thesis by blast
qed

text \<open>
  C6. An upload whose file name has an extension other than \<open>.jpg\<close> and \<open>.jpeg\<close>, compared
  as strings: \<^verbatim>\<open>validateFile\<close> returns its error with the file as it was given (nothing
  read, the read position unmoved), whatever the sniffer and the bytes are, and the
  response is 415 with both stores and the call log unchanged.
\<close>

theorem invalid_extension_rejected_first:
  assumes "Ext filename \<noteq> ''.jpg''" and "Ext filename \<noteq> ''.jpeg''"
  shows "validateFile lib e file filename = (Inl ''only JPEG files are allowed'', file) \<and>
         CreateFile lib e w (Inr (filename, bytes)) =
           (httpError ''only JPEG files are allowed'' 415, w)"
  using assms by (simp add: validateFile_def CreateFile_def)

theorem invalid_extension_rejected_first_witness:
  "Ext ''photo.JPG'' \<noteq> ''.jpg'' \<and> Ext ''photo.JPG'' \<noteq> ''.jpeg'' \<and>
   validateFile exLib exEnv \<lparr>content = exJpeg, offset = 0\<rparr> ''photo.JPG'' =
     (Inl ''only JPEG files are allowed'', \<lparr>content = exJpeg, offset = 0\<rparr>) \<and>
   CreateFile exLib exEnv emptyWorld (Inr (''photo.JPG'', exJpeg)) =
     (Response 415 (Text (''only JPEG files are allowed'' @ [CHR 0x0A])), emptyWorld)"
proof -
  have a: "Ext ''photo.JPG'' \<noteq> ''.jpg''" by (simp add: ex_Ext)
  have b: "Ext ''photo.JPG'' \<noteq> ''.jpeg''" by (simp add: ex_Ext)
  show ?thesis
    using invalid_extension_rejected_first [OF a b] a b by (simp add: httpError_def)
qed

text \<open>
  C2 (amended). Two uploads of the same valid JPEG bytes served one after the other, with
  no call failing, into stores whose table has no record with the hash of those bytes: the first response is 201 and the second 200, both with the
  same record (the same id and hash); the two requests put one object, under the key of
  that record, and write one item; afterwards that record is the only one of the table
  with that hash.
\<close>

theorem upload_twice_once_stored:
  assumes "validExt name1" and "validExt name2" and "isJPEG lib bytes"
    and "noFaults e1" and "noFaults e2"
    and "filter (\<lambda>x. Hash x = calculateHash lib bytes) (table w) = []"
  shows
    "fst (CreateFile lib e1 w (Inr (name1, bytes))) =
       Response 201
         (Json \<lparr>Metadata = newMetadata e1 (calculateHash lib bytes) (Ext name1),
                PresignedURL =
                  replaceLocalstackHostWithLocalhost (presignURL e1 (newID e1 @ Ext name1))\<rparr>) \<and>
     fst (CreateFile lib e2 (snd (CreateFile lib e1 w (Inr (name1, bytes)))) (Inr (name2, bytes))) =
       Response 200
         (Json \<lparr>Metadata = newMetadata e1 (calculateHash lib bytes) (Ext name1),
                PresignedURL =
                  replaceLocalstackHostWithLocalhost (presignURL e2 (newID e1 @ Ext name1))\<rparr>) \<and>
     table (serve lib w [(e1, POST_file (Inr (name1, bytes))), (e2, POST_file (Inr (name2, bytes)))]) =
       putItem (newMetadata e1 (calculateHash lib bytes) (Ext name1)) (table w) \<and>
     filter (\<lambda>x. Hash x = calculateHash lib bytes)
       (table (serve lib w
          [(e1, POST_file (Inr (name1, bytes))), (e2, POST_file (Inr (name2, bytes)))])) =
       [newMetadata e1 (calculateHash lib bytes) (Ext name1)] \<and>
     bucket (serve lib w [(e1, POST_file (Inr (name1, bytes))), (e2, POST_file (Inr (name2, bytes)))]) =
       (bucket w)(newID e1 @ Ext name1 \<mapsto> bytes) \<and>
     calls (serve lib w [(e1, POST_file (Inr (name1, bytes))), (e2, POST_file (Inr (name2, bytes)))]) =
       calls w @
       [Query (calculateHash lib bytes),
        PutObject (newID e1 @ Ext name1) bytes,
        PutItem (newMetadata e1 (calculateHash lib bytes) (Ext name1)),
        Presign (newID e1 @ Ext name1),
        Query (calculateHash lib bytes),
        Presign (newID e1 @ Ext name1)]"
proof -
  let ?h = "calculateHash lib bytes"
  let ?m = "newMetadata e1 ?h (Ext name1)"
  let ?k = "newID e1 @ Ext name1"
  let ?w1 = "w\<lparr>bucket := (bucket w)(?k \<mapsto> bytes), table := putItem ?m (table w),
               calls := calls w @ [Query ?h, PutObject ?k bytes, PutItem ?m, Presign ?k]\<rparr>"
  have f1: "readErr e1 = None" "copyErr e1 = None" "queryErr e1 = None"
    "putObjectErr e1 = None" "putItemErr e1 = None" "presignErr e1 = None"
    using assms(4) by (simp_all add: noFaults_def)
  have f2: "readErr e2 = None" "copyErr e2 = None" "queryErr e2 = None" "presignErr e2 = None"
    using assms(5) by (simp_all add: noFaults_def)
  have hm: "Hash ?m = ?h" "ID ?m @ Extension ?m = ?k" by (simp_all add: newMetadata_def)
  have first: "CreateFile lib e1 w (Inr (name1, bytes)) =
      (Response 201
         (Json \<lparr>Metadata = ?m,
                PresignedURL = replaceLocalstackHostWithLocalhost (presignURL e1 ?k)\<rparr>), ?w1)"
    using createNew_ok [OF f1(4) f1(5) f1(6) newID_nonempty calculateHash_nonempty,
        of "logCall (Query ?h) w" lib bytes "Ext name1" bytes]
    by (simp add: CreateFile_valid [OF assms(1) assms(3) f1(1) f1(2) f1(3)] assms(6) logCall_def)
  have one: "filter (\<lambda>x. Hash x = ?h) (putItem ?m (table w)) = [?m]"
    using filter_putItem_new [of ?m "table w"] assms(6) by (simp add: hm)
  have second: "CreateFile lib e2 ?w1 (Inr (name2, bytes)) =
      (Response 200
         (Json \<lparr>Metadata = ?m,
                PresignedURL = replaceLocalstackHostWithLocalhost (presignURL e2 ?k)\<rparr>),
       ?w1\<lparr>calls := calls ?w1 @ [Query ?h, Presign ?k]\<rparr>)"
    by (simp add: CreateFile_valid [OF assms(2) assms(3) f2(1) f2(2) f2(3)] one
        createExisting_eq f2(4) hm logCall_def)
  show ?thesis
    by (simp add: first second one)
qed

theorem upload_twice_once_stored_witness:
  "validExt ''a.jpg'' \<and> validExt ''b.jpeg'' \<and> isJPEG exLib exJpeg \<and> noFaults exEnv \<and>
   table emptyWorld = [] \<and>
   fst (CreateFile exLib exEnv emptyWorld (Inr (''a.jpg'', exJpeg))) =
     Response 201
       (Json \<lparr>Metadata = exMeta,
              PresignedURL = ''http://localhost:4566/file-storage-bucket/17f6c3d2-4415-46ec-a70c-741127b73c20.jpg''\<rparr>) \<and>
   fst (CreateFile exLib exEnv (snd (CreateFile exLib exEnv emptyWorld (Inr (''a.jpg'', exJpeg))))
          (Inr (''b.jpeg'', exJpeg))) =
     Response 200
       (Json \<lparr>Metadata = exMeta,
              PresignedURL = ''http://localhost:4566/file-storage-bucket/17f6c3d2-4415-46ec-a70c-741127b73c20.jpg''\<rparr>) \<and>
   table (serve exLib emptyWorld
            [(exEnv, POST_file (Inr (''a.jpg'', exJpeg))),
             (exEnv, POST_file (Inr (''b.jpeg'', exJpeg)))]) = [exMeta] \<and>
   bucket (serve exLib emptyWorld
            [(exEnv, POST_file (Inr (''a.jpg'', exJpeg))),
             (exEnv, POST_file (Inr (''b.jpeg'', exJpeg)))]) = [''17f6c3d2-4415-46ec-a70c-741127b73c20.jpg'' \<mapsto> exJpeg] \<and>
   calls (serve exLib emptyWorld
            [(exEnv, POST_file (Inr (''a.jpg'', exJpeg))),
             (exEnv, POST_file (Inr (''b.jpeg'', exJpeg)))]) =
     [Query exHash, PutObject ''17f6c3d2-4415-46ec-a70c-741127b73c20.jpg'' exJpeg, PutItem exMeta, Presign ''17f6c3d2-4415-46ec-a70c-741127b73c20.jpg'',
      Query exHash, Presign ''17f6c3d2-4415-46ec-a70c-741127b73c20.jpg'']"
proof -
  have empty: "table emptyWorld = []" "bucket emptyWorld = Map.empty" "calls emptyWorld = []"
    by (simp_all add: emptyWorld_def)
  note t = upload_twice_once_stored
    [OF ex_validExt(1) ex_validExt(2) ex_isJPEG ex_noFaults ex_noFaults ex_miss]
  have meta: "newMetadata exEnv exHash (Ext ''a.jpg'') = exMeta"
    using ex_newID(1) by (simp add: newMetadata_def ex_Ext exMeta_def exEnv_def)
  have key: "newID exEnv @ Ext ''a.jpg'' = ''17f6c3d2-4415-46ec-a70c-741127b73c20.jpg''"
    by (simp add: ex_Ext ex_newID)
  have url: "replaceLocalstackHostWithLocalhost (presignURL exEnv ''17f6c3d2-4415-46ec-a70c-741127b73c20.jpg'') =
      ''http://localhost:4566/file-storage-bucket/17f6c3d2-4415-46ec-a70c-741127b73c20.jpg''"
    by (simp add: replaceLocalstackHostWithLocalhost_def exEnv_def)
  note t' = t [unfolded meta key url ex_hash empty]
  from t' have r1: "fst (CreateFile exLib exEnv emptyWorld (Inr (''a.jpg'', exJpeg))) =
     Response 201
       (Json \<lparr>Metadata = exMeta,
              PresignedURL = ''http://localhost:4566/file-storage-bucket/17f6c3d2-4415-46ec-a70c-741127b73c20.jpg''\<rparr>)"
    by (rule conjunct1)
  from t' have r2:
    "fst (CreateFile exLib exEnv (snd (CreateFile exLib exEnv emptyWorld (Inr (''a.jpg'', exJpeg))))
          (Inr (''b.jpeg'', exJpeg))) =
     Response 200
       (Json \<lparr>Metadata = exMeta,
              PresignedURL = ''http://localhost:4566/file-storage-bucket/17f6c3d2-4415-46ec-a70c-741127b73c20.jpg''\<rparr>)"
    by blast
  from t' have tb: "table (serve exLib emptyWorld
            [(exEnv, POST_file (Inr (''a.jpg'', exJpeg))),
             (exEnv, POST_file (Inr (''b.jpeg'', exJpeg)))]) = [exMeta]"
    by simp
  from t' have bk: "bucket (serve exLib emptyWorld
            [(exEnv, POST_file (Inr (''a.jpg'', exJpeg))),
             (exEnv, POST_file (Inr (''b.jpeg'', exJpeg)))]) = [''17f6c3d2-4415-46ec-a70c-741127b73c20.jpg'' \<mapsto> exJpeg]"
    by blast
  from t' have cl: "calls (serve exLib emptyWorld
            [(exEnv, POST_file (Inr (''a.jpg'', exJpeg))),
             (exEnv, POST_file (Inr (''b.jpeg'', exJpeg)))]) =
     [Query exHash, PutObject ''17f6c3d2-4415-46ec-a70c-741127b73c20.jpg'' exJpeg, PutItem exMeta, Presign ''17f6c3d2-4415-46ec-a70c-741127b73c20.jpg'',
      Query exHash, Presign ''17f6c3d2-4415-46ec-a70c-741127b73c20.jpg'']"
    by simp
  from ex_validExt(1) ex_validExt(2) ex_isJPEG ex_noFaults empty(1) r1 r2 tb bk cl
  show ?thesis by (intro conjI)
qed

text \<open>
  C2 as stated fails for a pair of uploads of bytes the stores already hold. After one
  upload of \<open>exJpeg\<close> the stores are those of \<open>storedWorld\<close>; of the next two uploads of the
  same bytes, with no call failing, the first is answered 200 as well, not 201.
\<close>

theorem upload_pair_of_stored_content_counterexample:
  "validExt ''a.jpg'' \<and> isJPEG exLib exJpeg \<and> noFaults exEnv \<and>
   table (snd (CreateFile exLib exEnv emptyWorld (Inr (''a.jpg'', exJpeg)))) = table storedWorld \<and>
   bucket (snd (CreateFile exLib exEnv emptyWorld (Inr (''a.jpg'', exJpeg)))) =
     bucket storedWorld \<and>
   status (fst (CreateFile exLib exEnv storedWorld (Inr (''a.jpg'', exJpeg)))) = Some 200 \<and>
   status (fst (CreateFile exLib exEnv
                  (snd (CreateFile exLib exEnv storedWorld (Inr (''a.jpg'', exJpeg))))
                  (Inr (''a.jpg'', exJpeg)))) = Some 200"
proof -
  have w: "storedWorld\<lparr>calls := []\<rparr> = storedWorld" by (simp add: storedWorld_def)
  have first: "CreateFile exLib exEnv storedWorld (Inr (''a.jpg'', exJpeg)) =
     (Response 200
        (Json \<lparr>Metadata = exMeta,
               PresignedURL = ''http://localhost:4566/file-storage-bucket/17f6c3d2-4415-46ec-a70c-741127b73c20.jpg''\<rparr>),
      storedWorld\<lparr>calls := [] @ [Query exHash, Presign ''17f6c3d2-4415-46ec-a70c-741127b73c20.jpg'']\<rparr>)"
    using ex_dedup [of "[]"] unfolding w .
  have a: "table (snd (CreateFile exLib exEnv emptyWorld (Inr (''a.jpg'', exJpeg)))) =
      table storedWorld"
    by (simp add: ex_create)
  have b: "bucket (snd (CreateFile exLib exEnv emptyWorld (Inr (''a.jpg'', exJpeg)))) =
      bucket storedWorld"
    by (simp add: ex_create)
  have c: "status (fst (CreateFile exLib exEnv storedWorld (Inr (''a.jpg'', exJpeg)))) = Some 200"
    by (simp add: first)
  have d: "status (fst (CreateFile exLib exEnv
                  (snd (CreateFile exLib exEnv storedWorld (Inr (''a.jpg'', exJpeg))))
                  (Inr (''a.jpg'', exJpeg)))) = Some 200"
    by (simp add: first ex_dedup)
  from ex_validExt(1) ex_isJPEG ex_noFaults a b c d show ?thesis by (intro conjI)
qed

text \<open>
  C3 (amended). An upload that passes validation and buffering and whose hash query
  returns a record \<open>m\<close> (the first record of the table with that hash): the bucket and the
  table are unchanged and the calls issued are the query and the signing for the key of
  \<open>m\<close>, so no object is put and no item is written. When the signing succeeds the response
  is 200 with \<open>m\<close> itself and the URL signed for \<open>m\<close>'s key; when it fails the response is
  500. It is never 201.
\<close>

theorem dedup_hit_writes_nothing:
  assumes "validExt name" and "isJPEG lib bytes" and "readErr e = None" and "copyErr e = None"
    and "queryErr e = None"
    and "filter (\<lambda>x. Hash x = calculateHash lib bytes) (table w) = m # rest"
  shows "bucket (snd (CreateFile lib e w (Inr (name, bytes)))) = bucket w \<and>
         table (snd (CreateFile lib e w (Inr (name, bytes)))) = table w \<and>
         calls (snd (CreateFile lib e w (Inr (name, bytes)))) =
           calls w @ [Query (calculateHash lib bytes), Presign (ID m @ Extension m)] \<and>
         (presignErr e = None \<longrightarrow>
            fst (CreateFile lib e w (Inr (name, bytes))) =
              Response 200
                (Json \<lparr>Metadata = m,
                       PresignedURL =
                         replaceLocalstackHostWithLocalhost
                           (presignURL e (ID m @ Extension m))\<rparr>)) \<and>
         (presignErr e \<noteq> None \<longrightarrow>
            status (fst (CreateFile lib e w (Inr (name, bytes)))) = Some 500) \<and>
         status (fst (CreateFile lib e w (Inr (name, bytes)))) \<noteq> Some 201"
proof -
  have hit: "CreateFile lib e w (Inr (name, bytes)) =
      createExisting e (logCall (Query (calculateHash lib bytes)) w) m"
    using assms by (simp add: CreateFile_valid)
  show ?thesis
    unfolding hit
    by (auto simp add: createExisting_eq logCall_def status_httpError split: option.split)
qed

theorem dedup_hit_writes_nothing_witness:
  "validExt ''b.jpeg'' \<and> isJPEG exLib exJpeg \<and> noFaults exEnv \<and>
   table storedWorld = [exMeta] \<and> Hash exMeta = calculateHash exLib exJpeg \<and>
   bucket (snd (CreateFile exLib exEnv storedWorld (Inr (''b.jpeg'', exJpeg)))) =
     bucket storedWorld \<and>
   table (snd (CreateFile exLib exEnv storedWorld (Inr (''b.jpeg'', exJpeg)))) = [exMeta] \<and>
   calls (snd (CreateFile exLib exEnv storedWorld (Inr (''b.jpeg'', exJpeg)))) =
     [Query exHash, Presign ''17f6c3d2-4415-46ec-a70c-741127b73c20.jpg''] \<and>
   fst (CreateFile exLib exEnv storedWorld (Inr (''b.jpeg'', exJpeg))) =
     Response 200
       (Json \<lparr>Metadata = exMeta,
              PresignedURL = ''http://localhost:4566/file-storage-bucket/17f6c3d2-4415-46ec-a70c-741127b73c20.jpg''\<rparr>)"
proof -
  have env: "readErr exEnv = None" "copyErr exEnv = None" "queryErr exEnv = None"
    "presignErr exEnv = None"
    by (simp_all add: exEnv_def)
  note t = dedup_hit_writes_nothing
    [OF ex_validExt(2) ex_isJPEG env(1) env(2) env(3) ex_hit]
  have tab: "table storedWorld = [exMeta]" by (simp add: storedWorld_def)
  have h: "Hash exMeta = calculateHash exLib exJpeg" by (simp add: ex_hash exMeta_def)
  have key: "ID exMeta @ Extension exMeta = ''17f6c3d2-4415-46ec-a70c-741127b73c20.jpg''" by (simp add: exMeta_def)
  have url: "replaceLocalstackHostWithLocalhost (presignURL exEnv ''17f6c3d2-4415-46ec-a70c-741127b73c20.jpg'') =
      ''http://localhost:4566/file-storage-bucket/17f6c3d2-4415-46ec-a70c-741127b73c20.jpg''"
    by (simp add: replaceLocalstackHostWithLocalhost_def exEnv_def)
  have cs: "calls storedWorld = []" by (simp add: storedWorld_def)
  from t have b: "bucket (snd (CreateFile exLib exEnv storedWorld (Inr (''b.jpeg'', exJpeg)))) =
     bucket storedWorld"
    by blast
  from t tab have tb:
    "table (snd (CreateFile exLib exEnv storedWorld (Inr (''b.jpeg'', exJpeg)))) = [exMeta]"
    by simp
  from t have c: "calls (snd (CreateFile exLib exEnv storedWorld (Inr (''b.jpeg'', exJpeg)))) =
     [Query exHash, Presign ''17f6c3d2-4415-46ec-a70c-741127b73c20.jpg'']"
    by (simp add: key cs ex_hash)
  from t env(4) have r: "fst (CreateFile exLib exEnv storedWorld (Inr (''b.jpeg'', exJpeg))) =
     Response 200
       (Json \<lparr>Metadata = exMeta,
              PresignedURL = ''http://localhost:4566/file-storage-bucket/17f6c3d2-4415-46ec-a70c-741127b73c20.jpg''\<rparr>)"
    by (simp add: key url)
  from ex_validExt(2) ex_isJPEG ex_noFaults tab h b tb c r show ?thesis by (intro conjI)
qed

text \<open>
  C3 as stated fails when the signing of the URL fails on a dedup hit: the stores hold the
  record of the uploaded bytes, every store call succeeds, and the response is 500, not 200.
\<close>

theorem dedup_hit_presign_failure_counterexample:
  "table storedWorld = [exMeta] \<and> Hash exMeta = calculateHash exLib exJpeg \<and>
   fst (CreateFile exLib (exEnv\<lparr>presignErr := Some ''NoCredentialProviders''\<rparr>) storedWorld
          (Inr (''a.jpg'', exJpeg))) =
     Response 500 (Text (''NoCredentialProviders'' @ [CHR 0x0A]))"
proof -
  let ?e = "exEnv\<lparr>presignErr := Some ''NoCredentialProviders''\<rparr>"
  have env: "readErr ?e = None" "copyErr ?e = None" "queryErr ?e = None"
    "presignErr ?e = Some ''NoCredentialProviders''"
    by (simp_all add: exEnv_def)
  have tab: "table storedWorld = [exMeta]" by (simp add: storedWorld_def)
  have h: "Hash exMeta = calculateHash exLib exJpeg" by (simp add: ex_hash exMeta_def)
  have "fst (CreateFile exLib ?e storedWorld (Inr (''a.jpg'', exJpeg))) =
     Response 500 (Text (''NoCredentialProviders'' @ [CHR 0x0A]))"
    by (simp add: CreateFile_valid [OF ex_validExt(1) ex_isJPEG env(1) env(2) env(3)] ex_hit
        createExisting_eq env(4) httpError_def)
  with tab h show ?thesis by (intro conjI)
qed

text \<open>
  C5 (amended). A request without a usable form file is answered 400. With a form file:
  an invalid extension, a failed sniffing read (an I/O error, or end of file on an empty
  part) and a sniffed type other than JPEG are answered 415; once validation has passed, a
  failure of the buffering copy, of the hash query, of the object upload or of the metadata
  write is answered 500.
\<close>

theorem CreateFile_failure_statuses:
  "status (fst (CreateFile lib e w (Inl err))) = Some 400 \<and>
   (\<not> validExt name \<longrightarrow> status (fst (CreateFile lib e w (Inr (name, bytes)))) = Some 415) \<and>
   (validExt name \<and> readErr e \<noteq> None \<longrightarrow>
      status (fst (CreateFile lib e w (Inr (name, bytes)))) = Some 415) \<and>
   (validExt name \<and> readErr e = None \<and> bytes = [] \<longrightarrow>
      status (fst (CreateFile lib e w (Inr (name, bytes)))) = Some 415) \<and>
   (validExt name \<and> readErr e = None \<and> bytes \<noteq> [] \<and>
    DetectContentType lib (sniffBuffer bytes) \<noteq> ''image/jpeg'' \<longrightarrow>
      status (fst (CreateFile lib e w (Inr (name, bytes)))) = Some 415) \<and>
   (validExt name \<and> readErr e = None \<and> isJPEG lib bytes \<and> copyErr e \<noteq> None \<longrightarrow>
      status (fst (CreateFile lib e w (Inr (name, bytes)))) = Some 500) \<and>
   (validExt name \<and> readErr e = None \<and> isJPEG lib bytes \<and> copyErr e = None \<and>
    queryErr e \<noteq> None \<longrightarrow>
      status (fst (CreateFile lib e w (Inr (name, bytes)))) = Some 500) \<and>
   (validExt name \<and> readErr e = None \<and> isJPEG lib bytes \<and> copyErr e = None \<and>
    queryErr e = None \<and> filter (\<lambda>m. Hash m = calculateHash lib bytes) (table w) = [] \<and>
    (putObjectErr e \<noteq> None \<or> putItemErr e \<noteq> None) \<longrightarrow>
      status (fst (CreateFile lib e w (Inr (name, bytes)))) = Some 500)"
proof -
  have missing: "status (fst (CreateFile lib e w (Inl err))) = Some 400"
    by (simp add: CreateFile_def status_httpError)
  have ext: "\<not> validExt name \<longrightarrow> status (fst (CreateFile lib e w (Inr (name, bytes)))) = Some 415"
    by (simp add: CreateFile_fresh status_httpError)
  have rd: "validExt name \<and> readErr e \<noteq> None \<longrightarrow>
      status (fst (CreateFile lib e w (Inr (name, bytes)))) = Some 415"
    by (auto simp add: CreateFile_fresh status_httpError)
  have eof: "validExt name \<and> readErr e = None \<and> bytes = [] \<longrightarrow>
      status (fst (CreateFile lib e w (Inr (name, bytes)))) = Some 415"
    by (simp add: CreateFile_fresh status_httpError)
  have sniff: "validExt name \<and> readErr e = None \<and> bytes \<noteq> [] \<and>
    DetectContentType lib (sniffBuffer bytes) \<noteq> ''image/jpeg'' \<longrightarrow>
      status (fst (CreateFile lib e w (Inr (name, bytes)))) = Some 415"
    by (simp add: CreateFile_fresh status_httpError)
  have copy: "validExt name \<and> readErr e = None \<and> isJPEG lib bytes \<and> copyErr e \<noteq> None \<longrightarrow>
      status (fst (CreateFile lib e w (Inr (name, bytes)))) = Some 500"
    by (auto simp add: CreateFile_fresh isJPEG_def status_httpError)
  have query: "validExt name \<and> readErr e = None \<and> isJPEG lib bytes \<and> copyErr e = None \<and>
    queryErr e \<noteq> None \<longrightarrow>
      status (fst (CreateFile lib e w (Inr (name, bytes)))) = Some 500"
    by (auto simp add: CreateFile_fresh isJPEG_def createHashed_eq status_httpError)
  have store: "validExt name \<and> readErr e = None \<and> isJPEG lib bytes \<and> copyErr e = None \<and>
    queryErr e = None \<and> filter (\<lambda>m. Hash m = calculateHash lib bytes) (table w) = [] \<and>
    (putObjectErr e \<noteq> None \<or> putItemErr e \<noteq> None) \<longrightarrow>
      status (fst (CreateFile lib e w (Inr (name, bytes)))) = Some 500"
    using status_createNew_failed [of e]
    by (simp add: CreateFile_fresh isJPEG_def createHashed_eq)
  from missing ext rd eof sniff copy query store show ?thesis by (intro conjI)
qed

theorem CreateFile_failure_statuses_witness:
  "status (fst (CreateFile exLib exEnv emptyWorld (Inl ''http: no such file''))) = Some 400 \<and>
   status (fst (CreateFile exLib exEnv emptyWorld (Inr (''a.png'', exJpeg)))) = Some 415 \<and>
   status (fst (CreateFile exLib (exEnv\<lparr>readErr := Some ''unexpected EOF''\<rparr>) emptyWorld
                  (Inr (''a.jpg'', exJpeg)))) = Some 415 \<and>
   status (fst (CreateFile exLib exEnv emptyWorld (Inr (''a.jpg'', [])))) = Some 415 \<and>
   status (fst (CreateFile exLib exEnv emptyWorld (Inr (''a.jpg'', exText)))) = Some 415 \<and>
   status (fst (CreateFile exLib (exEnv\<lparr>copyErr := Some ''unexpected EOF''\<rparr>) emptyWorld
                  (Inr (''a.jpg'', exJpeg)))) = Some 500 \<and>
   status (fst (CreateFile exLib (exEnv\<lparr>queryErr := Some ''timeout''\<rparr>) emptyWorld
                  (Inr (''a.jpg'', exJpeg)))) = Some 500 \<and>
   status (fst (CreateFile exLib (exEnv\<lparr>putObjectErr := Some ''NoSuchBucket''\<rparr>) emptyWorld
                  (Inr (''a.jpg'', exJpeg)))) = Some 500 \<and>
   status (fst (CreateFile exLib (exEnv\<lparr>putItemErr := Some ''timeout''\<rparr>) emptyWorld
                  (Inr (''a.jpg'', exJpeg)))) = Some 500"
proof -
  note t = CreateFile_failure_statuses [where lib = exLib and w = emptyWorld]
  have c1: "status (fst (CreateFile exLib exEnv emptyWorld (Inl ''http: no such file''))) =
      Some 400"
    using t [where e = exEnv and err = "''http: no such file''"] by blast
  have c2: "status (fst (CreateFile exLib exEnv emptyWorld (Inr (''a.png'', exJpeg)))) = Some 415"
    using t [where e = exEnv and name = "''a.png''" and bytes = exJpeg] ex_png by blast
  have c3: "status (fst (CreateFile exLib (exEnv\<lparr>readErr := Some ''unexpected EOF''\<rparr>)
      emptyWorld (Inr (''a.jpg'', exJpeg)))) = Some 415"
    using t [where e = "exEnv\<lparr>readErr := Some ''unexpected EOF''\<rparr>" and name = "''a.jpg''"
        and bytes = exJpeg] ex_validExt(1)
    by simp
  have r: "readErr exEnv = None" by (simp add: exEnv_def)
  have c4: "status (fst (CreateFile exLib exEnv emptyWorld (Inr (''a.jpg'', [])))) = Some 415"
    using t [where e = exEnv and name = "''a.jpg''" and bytes = "[]"] ex_validExt(1) r
    by blast
  have c5: "status (fst (CreateFile exLib exEnv emptyWorld (Inr (''a.jpg'', exText)))) = Some 415"
    using t [where e = exEnv and name = "''a.jpg''" and bytes = exText] ex_validExt(1) r ex_text
    by blast
  have c6: "status (fst (CreateFile exLib (exEnv\<lparr>copyErr := Some ''unexpected EOF''\<rparr>)
      emptyWorld (Inr (''a.jpg'', exJpeg)))) = Some 500"
    using t [where e = "exEnv\<lparr>copyErr := Some ''unexpected EOF''\<rparr>" and name = "''a.jpg''"
        and bytes = exJpeg] ex_validExt(1) ex_isJPEG
    by (simp add: exEnv_def)
  have c7: "status (fst (CreateFile exLib (exEnv\<lparr>queryErr := Some ''timeout''\<rparr>)
      emptyWorld (Inr (''a.jpg'', exJpeg)))) = Some 500"
    using t [where e = "exEnv\<lparr>queryErr := Some ''timeout''\<rparr>" and name = "''a.jpg''"
        and bytes = exJpeg] ex_validExt(1) ex_isJPEG
    by (simp add: exEnv_def)
  have c8: "status (fst (CreateFile exLib (exEnv\<lparr>putObjectErr := Some ''NoSuchBucket''\<rparr>)
      emptyWorld (Inr (''a.jpg'', exJpeg)))) = Some 500"
    using t [where e = "exEnv\<lparr>putObjectErr := Some ''NoSuchBucket''\<rparr>" and name = "''a.jpg''"
        and bytes = exJpeg] ex_validExt(1) ex_isJPEG ex_miss
    by (simp add: exEnv_def)
  have c9: "status (fst (CreateFile exLib (exEnv\<lparr>putItemErr := Some ''timeout''\<rparr>)
      emptyWorld (Inr (''a.jpg'', exJpeg)))) = Some 500"
    using t [where e = "exEnv\<lparr>putItemErr := Some ''timeout''\<rparr>" and name = "''a.jpg''"
        and bytes = exJpeg] ex_validExt(1) ex_isJPEG ex_miss
    by (simp add: exEnv_def)
  from c1 c2 c3 c4 c5 c6 c7 c8 c9 show ?thesis by (intro conjI)
qed

text \<open>
  C5 as stated fails on a read failure: when the sniffing read of \<^verbatim>\<open>validateFile\<close>
  returns an error, or meets the end of an empty part, the response is 415, not 500.
\<close>

theorem read_failure_counterexample:
  "fst (CreateFile exLib (exEnv\<lparr>readErr := Some ''unexpected EOF''\<rparr>) emptyWorld
          (Inr (''a.jpg'', exJpeg))) =
     Response 415 (Text (''failed to read file: unexpected EOF'' @ [CHR 0x0A])) \<and>
   fst (CreateFile exLib exEnv emptyWorld (Inr (''a.jpg'', []))) =
     Response 415 (Text (''failed to read file: EOF'' @ [CHR 0x0A]))"
  by (simp add: CreateFile_fresh ex_validExt httpError_def exEnv_def)

end
